theory Spec2Isabelle
  imports Complex_Main
begin

section \<open>The freehand draw shape of \<^verbatim>\<open>src/lib/shape-utils/draw.tsx\<close>\<close>

text \<open>
  The module registers the utilities of the freehand ``draw'' shape: bounds, rotated
  bounds, hit tests, the resize transform, style application and the cached outline
  path. This theory embeds those functions and settles the properties stated for them.

  Conventions of the embedding.
  \<^item> Rounding is not modelled: arithmetic is that of the reals. The anchor of a shape,
    its rotation, the fields of a box and what the helpers return are \<^typ>\<open>real\<close>. The
    coordinates of the sample points are of the type \<open>number\<close>, a real or one of NaN and
    the two infinities, because the module itself produces such values there: the
    division by a zero width or height in \<^verbatim>\<open>transform\<close>.
  \<^item> Objects that key a \<^verbatim>\<open>WeakMap\<close> carry their identity as a natural number: the
    shape object in \<open>oid\<close>, a points array in \<open>ident\<close>. Assigning to a field of a
    shape keeps \<open>oid\<close>; building a new array takes a fresh \<open>ident\<close> from the
    allocation counter of the world.
  \<^item> The three caches and the allocation counter form the \<open>world\<close>, passed in and
    returned by every function that reads or writes them.
  \<^item> The helpers the module imports from \<^verbatim>\<open>utils/*\<close>, \<^verbatim>\<open>lib/shape-styles\<close> and
    \<^verbatim>\<open>perfect-freehand\<close> are not part of the sources at hand. The small vector and
    box helpers are modelled from the specification; the others are fields of a record of
    \<open>helpers\<close> over which every function of the module is parametric.
  \<^item> \<^verbatim>\<open>create\<close> is left out: it draws a fresh \<^verbatim>\<open>uuid\<close> and spreads the missing
    \<^verbatim>\<open>defaultStyle\<close>, and no property below concerns it.
\<close>

subsection \<open>Data\<close>

text \<open>
  A JavaScript number as a coordinate of a sample point: a real, NaN, or an infinity.
  The operations are those of IEEE arithmetic without rounding; a zero divisor is taken
  as the positive zero (the zero a difference of equal numbers gives).
\<close>

datatype number = Num real | NaN | PosInfinity | NegInfinity

instantiation number :: "{zero, one, plus, uminus, minus, times, inverse}"
begin

definition zero_number :: number where
  "zero_number = Num 0"

definition one_number :: number where
  "one_number = Num 1"

fun plus_number :: "number \<Rightarrow> number \<Rightarrow> number" where
  "plus_number (Num a) (Num b) = Num (a + b)"
| "plus_number NaN b = NaN"
| "plus_number a NaN = NaN"
| "plus_number PosInfinity NegInfinity = NaN"
| "plus_number NegInfinity PosInfinity = NaN"
| "plus_number PosInfinity b = PosInfinity"
| "plus_number a PosInfinity = PosInfinity"
| "plus_number NegInfinity b = NegInfinity"
| "plus_number a NegInfinity = NegInfinity"

fun uminus_number :: "number \<Rightarrow> number" where
  "uminus_number (Num a) = Num (- a)"
| "uminus_number NaN = NaN"
| "uminus_number PosInfinity = NegInfinity"
| "uminus_number NegInfinity = PosInfinity"

definition minus_number :: "number \<Rightarrow> number \<Rightarrow> number" where
  "minus_number a b = a + (- b)"

fun times_number :: "number \<Rightarrow> number \<Rightarrow> number" where
  "times_number (Num a) (Num b) = Num (a * b)"
| "times_number NaN b = NaN"
| "times_number a NaN = NaN"
| "times_number (Num a) PosInfinity =
     (if a = 0 then NaN else if 0 < a then PosInfinity else NegInfinity)"
| "times_number (Num a) NegInfinity =
     (if a = 0 then NaN else if 0 < a then NegInfinity else PosInfinity)"
| "times_number PosInfinity (Num b) =
     (if b = 0 then NaN else if 0 < b then PosInfinity else NegInfinity)"
| "times_number NegInfinity (Num b) =
     (if b = 0 then NaN else if 0 < b then NegInfinity else PosInfinity)"
| "times_number PosInfinity PosInfinity = PosInfinity"
| "times_number PosInfinity NegInfinity = NegInfinity"
| "times_number NegInfinity PosInfinity = NegInfinity"
| "times_number NegInfinity NegInfinity = PosInfinity"

fun divide_number :: "number \<Rightarrow> number \<Rightarrow> number" where
  "divide_number (Num a) (Num b) =
     (if b \<noteq> 0 then Num (a / b)
      else if a = 0 then NaN else if 0 < a then PosInfinity else NegInfinity)"
| "divide_number NaN b = NaN"
| "divide_number a NaN = NaN"
| "divide_number (Num a) PosInfinity = Num 0"
| "divide_number (Num a) NegInfinity = Num 0"
| "divide_number PosInfinity (Num b) = (if 0 \<le> b then PosInfinity else NegInfinity)"
| "divide_number NegInfinity (Num b) = (if 0 \<le> b then NegInfinity else PosInfinity)"
| "divide_number PosInfinity PosInfinity = NaN"
| "divide_number PosInfinity NegInfinity = NaN"
| "divide_number NegInfinity PosInfinity = NaN"
| "divide_number NegInfinity NegInfinity = NaN"

definition inverse_number :: "number \<Rightarrow> number" where
  "inverse_number a = divide (Num 1) a"

instance ..

end

text \<open>Addition is associative, so that numerals denote numbers.\<close>

instance number :: numeral
proof
  fix a b c :: number
  show "a + b + c = a + (b + c)"
    by (cases a; cases b; cases c) simp_all
qed

text \<open>The real a number is, if it is one.\<close>

fun fin :: "number \<Rightarrow> real option" where
  "fin (Num x) = Some x"
| "fin NaN = None"
| "fin PosInfinity = None"
| "fin NegInfinity = None"

text \<open>
  A \<^verbatim>\<open>number[]\<close> that holds a position: two coordinates, and for a sample point
  possibly a third one, the pressure. The module builds and reads arrays of these two
  lengths only. The entries of an anchor, a centre or a difference of corners are reals
  (\<open>real vec\<close>), those of a sample point are numbers (\<open>number vec\<close>).
\<close>

datatype 'a vec = Vec2 'a 'a | Vec3 'a 'a 'a

fun vx :: "'a vec \<Rightarrow> 'a" where
  "vx (Vec2 x y) = x"
| "vx (Vec3 x y p) = x"

fun vy :: "'a vec \<Rightarrow> 'a" where
  "vy (Vec2 x y) = y"
| "vy (Vec3 x y p) = y"

text \<open>The entry at index 2; \<open>None\<close> is JavaScript's \<^verbatim>\<open>undefined\<close>.\<close>

fun third :: "'a vec \<Rightarrow> 'a option" where
  "third (Vec2 x y) = None"
| "third (Vec3 x y p) = Some p"

text \<open>The \<^verbatim>\<open>length\<close> of the array.\<close>

fun components :: "'a vec \<Rightarrow> nat" where
  "components (Vec2 x y) = 2"
| "components (Vec3 x y p) = 3"

text \<open>
  Modelled from the spec: the declaration of \<^verbatim>\<open>Bounds\<close> (in \<^verbatim>\<open>types\<close>) is missing; the
  specification gives an axis-aligned box as \<^verbatim>\<open>{minX, minY, width, height}\<close>.
\<close>

record Bounds =
  minX :: real
  minY :: real
  width :: real
  height :: real

text \<open>
  Modelled from the spec: the declarations of \<^verbatim>\<open>DashStyle\<close> and \<^verbatim>\<open>ShapeStyles\<close> are
  missing. The source names \<^verbatim>\<open>DashStyle.Solid\<close> and the style fields \<^verbatim>\<open>isFilled\<close> and
  \<^verbatim>\<open>dash\<close>; the specification lists stroke width (size), colour and dash as the style
  attributes.
\<close>

datatype DashStyle = Solid | Dashed | Dotted

record ShapeStyles =
  color :: string
  size :: string
  dash :: DashStyle
  isFilled :: bool

text \<open>A \<^verbatim>\<open>Partial<ShapeStyles>\<close>: every key may be absent.\<close>

record PartialStyles =
  p_color :: "string option"
  p_size :: "string option"
  p_dash :: "DashStyle option"
  p_isFilled :: "bool option"

text \<open>An array of points with its object identity, the key of \<^verbatim>\<open>pathCache\<close>.\<close>

record PointsArray =
  ident :: nat
  elems :: "number vec list"

record DrawShape =
  oid :: nat
  shape_id :: string
  isGenerated :: bool
  name :: string
  parentId :: string
  childIndex :: real
  point :: "real vec"
  points :: PointsArray
  rotation :: real
  isAspectRatioLocked :: bool
  isLocked :: bool
  isHidden :: bool
  style :: ShapeStyles

text \<open>
  What \<^verbatim>\<open>getShapeStyle\<close> resolves a style to, as far as the module reads it: the
  number \<^verbatim>\<open>+styles.strokeWidth\<close> and the colour \<^verbatim>\<open>styles.stroke\<close>.
\<close>

record ResolvedStyle =
  strokeWidth :: real
  stroke :: string

text \<open>
  The two constant option objects of the source, and the options object handed to
  \<^verbatim>\<open>getStroke\<close>. An absent \<^verbatim>\<open>easing\<close> key is \<open>None\<close>.
\<close>

record PressureSettings =
  easing :: "(real \<Rightarrow> real) option"
  simulatePressure :: bool

record StrokeOptions = PressureSettings +
  stroke_size :: real
  thinning :: real
  end_taper :: real
  start_taper :: real

text \<open>The element \<^verbatim>\<open>render\<close> returns: a circle (id, r, fill) or a path (id, d, fill).\<close>

datatype element =
  Circle string real string
| Path string "string option" string

text \<open>\<open>TypeError\<close>: a property is read on \<^verbatim>\<open>undefined\<close> and the source throws.\<close>

datatype error = TypeError

record world =
  boundsCache :: "nat \<rightharpoonup> Bounds"
  rotatedCache :: "nat \<rightharpoonup> number vec list"
  pathCache :: "nat \<rightharpoonup> string"
  nextIdent :: nat

text \<open>
  The imported helpers whose code is not at hand. \<open>getBoundsFromPoints\<close> takes the
  optional rotation as an option: \<open>None\<close> is the call without it. They take the sample
  points as they are, with coordinates that may be no reals, and return reals.
\<close>

record helpers =
  getBoundsFromPoints :: "number vec list \<Rightarrow> real option \<Rightarrow> Bounds"
  boundsContain :: "Bounds \<Rightarrow> Bounds \<Rightarrow> bool"
  intersectPolylineBounds :: "number vec list \<Rightarrow> Bounds \<Rightarrow> real vec list"
  rotWith :: "number vec \<Rightarrow> real vec \<Rightarrow> real \<Rightarrow> number vec"
  distanceToLineSegment :: "number vec \<Rightarrow> number vec \<Rightarrow> real vec \<Rightarrow> real"
  getShapeStyle :: "ShapeStyles \<Rightarrow> ResolvedStyle"
  getStroke :: "number vec list \<Rightarrow> StrokeOptions \<Rightarrow> number vec list"
  getSvgPathFromStroke :: "number vec list \<Rightarrow> string"

subsection \<open>Vector and box helpers\<close>

text \<open>
  Modelled from the spec: \<^verbatim>\<open>vec.sub\<close> and \<^verbatim>\<open>vec.add\<close> of \<^verbatim>\<open>utils/vec\<close> are missing;
  the specification calls them point arithmetic (subtract, add). They act on the two
  coordinates and return a two-entry array. The module subtracts anchors, centres and
  corners, and adds the anchor to a sample point.
\<close>

definition vec_sub :: "real vec \<Rightarrow> real vec \<Rightarrow> real vec" where
  "vec_sub a b = Vec2 (vx a - vx b) (vy a - vy b)"

definition vec_add :: "number vec \<Rightarrow> real vec \<Rightarrow> number vec" where
  "vec_add a b = Vec2 (vx a + Num (vx b)) (vy a + Num (vy b))"

text \<open>
  Modelled from the spec: \<^verbatim>\<open>translateBounds\<close> of \<^verbatim>\<open>utils/utils\<close> is missing; the
  specification has it move the box by a vector: the min corner shifts by the vector,
  width and height stay.
\<close>

definition translateBounds :: "Bounds \<Rightarrow> real vec \<Rightarrow> Bounds" where
  "translateBounds b delta =
     \<lparr>minX = minX b + vx delta, minY = minY b + vy delta,
      width = width b, height = height b\<rparr>"

text \<open>
  Modelled from the spec: \<^verbatim>\<open>getBoundsCenter\<close> of \<^verbatim>\<open>utils/utils\<close> is missing; it is
  the centre of the box, as \<^verbatim>\<open>getCenter\<close> of the source computes it.
\<close>

definition getBoundsCenter :: "Bounds \<Rightarrow> real vec" where
  "getBoundsCenter b = Vec2 (minX b + width b / 2) (minY b + height b / 2)"

subsection \<open>The shape utilities\<close>

text \<open>
  \<^verbatim>\<open>getBounds\<close>: on a cache miss the local box of the points is computed and stored
  under the shape's identity; the stored box is returned translated by the anchor.
\<close>

definition getBounds :: "helpers \<Rightarrow> world \<Rightarrow> DrawShape \<Rightarrow> Bounds \<times> world" where
  "getBounds E w shape =
     (case boundsCache w (oid shape) of
        None \<Rightarrow>
          (let bounds = getBoundsFromPoints E (elems (points shape)) None
           in (translateBounds bounds (point shape),
               w\<lparr>boundsCache := (boundsCache w)(oid shape \<mapsto> bounds)\<rparr>))
      | Some cached \<Rightarrow> (translateBounds cached (point shape), w))"

definition getRotatedBounds :: "helpers \<Rightarrow> world \<Rightarrow> DrawShape \<Rightarrow> Bounds \<times> world" where
  "getRotatedBounds E w shape =
     (let rBounds = translateBounds
            (getBoundsFromPoints E (elems (points shape)) (Some (rotation shape)))
            (point shape);
          (bounds, w') = getBounds E w shape;
          delta = vec_sub (getBoundsCenter bounds) (getBoundsCenter rBounds)
      in (translateBounds rBounds delta, w'))"

definition getCenter :: "helpers \<Rightarrow> world \<Rightarrow> DrawShape \<Rightarrow> real vec \<times> world" where
  "getCenter E w shape =
     (let (bounds, w') = getRotatedBounds E w shape
      in (Vec2 (minX bounds + width bounds / 2) (minY bounds + height bounds / 2), w'))"

text \<open>
  \<^verbatim>\<open>hitTest\<close>: \<^verbatim>\<open>some\<close> over the points with their indices; the callback reads the
  previous point only behind \<^verbatim>\<open>i > 0\<close>.
\<close>

definition hitTest :: "helpers \<Rightarrow> DrawShape \<Rightarrow> real vec \<Rightarrow> bool" where
  "hitTest E shape p =
     (let pt = vec_sub p (point shape);
          mn = strokeWidth (getShapeStyle E (style shape));
          pts = elems (points shape)
      in list_ex
           (\<lambda>i. i > 0 \<and> distanceToLineSegment E (pts ! (i - 1)) (pts ! i) pt < mn)
           [0 ..< length pts])"

definition hitTestBounds :: "helpers \<Rightarrow> world \<Rightarrow> DrawShape \<Rightarrow> Bounds \<Rightarrow> bool \<times> world" where
  "hitTestBounds E w shape brushBounds =
     (if rotation shape = 0 then
        (let (bounds, w') = getBounds E w shape
         in (boundsContain E brushBounds bounds \<or>
             length (intersectPolylineBounds E (elems (points shape)) brushBounds) > 0, w'))
      else
        (let (rBounds, w') = getRotatedBounds E w shape;
             (rotated, w'') =
               (case rotatedCache w' (oid shape) of
                  None \<Rightarrow>
                    (let c = getBoundsCenter rBounds;
                         r = map (\<lambda>pt. rotWith E (vec_add pt (point shape)) c (rotation shape))
                               (elems (points shape))
                     in (r, w'\<lparr>rotatedCache := (rotatedCache w')(oid shape \<mapsto> r)\<rparr>))
                | Some r \<Rightarrow> (r, w'))
         in (boundsContain E brushBounds rBounds \<or>
             length (intersectPolylineBounds E rotated brushBounds) > 0, w'')))"

text \<open>
  \<^verbatim>\<open>transform\<close>. The callback of \<^verbatim>\<open>map\<close> reads \<^verbatim>\<open>initialShapeBounds.width\<close>: with no
  cache entry for \<^verbatim>\<open>initialShape\<close> that read throws, and it is reached only when there is
  a point to map. The callback returns a two-entry array; with a zero width (height)
  the quotient \<^verbatim>\<open>x / width\<close> is NaN or an infinity, and so is the first (second) entry,
  while the other entry is computed as usual.
\<close>

fun map_err :: "('a \<Rightarrow> error + 'b) \<Rightarrow> 'a list \<Rightarrow> error + 'b list" where
  "map_err f [] = Inr []"
| "map_err f (x # xs) =
     (case f x of
        Inl e \<Rightarrow> Inl e
      | Inr y \<Rightarrow> (case map_err f xs of Inl e \<Rightarrow> Inl e | Inr ys \<Rightarrow> Inr (y # ys)))"

definition remap ::
  "Bounds option \<Rightarrow> Bounds \<Rightarrow> real \<Rightarrow> real \<Rightarrow> number vec \<Rightarrow> error + number vec"
where
  "remap initialShapeBounds bounds scaleX scaleY p =
     (case initialShapeBounds of
        None \<Rightarrow> Inl TypeError
      | Some ib \<Rightarrow>
          Inr (Vec2
            (Num (width bounds) *
               (if scaleX < 0 then 1 - vx p / Num (width ib) else vx p / Num (width ib)))
            (Num (height bounds) *
               (if scaleY < 0 then 1 - vy p / Num (height ib) else vy p / Num (height ib)))))"

definition transform ::
  "helpers \<Rightarrow> world \<Rightarrow> DrawShape \<Rightarrow> Bounds \<Rightarrow> DrawShape \<Rightarrow> real \<Rightarrow> real \<Rightarrow> error + DrawShape \<times> world"
where
  "transform E w shape bounds initialShape scaleX scaleY =
     (let initialShapeBounds = boundsCache w (oid initialShape)
      in case map_err (remap initialShapeBounds bounds scaleX scaleY)
                (elems (points initialShape)) of
           Inl e \<Rightarrow> Inl e
         | Inr pts \<Rightarrow>
             (let newPoints = \<lparr>ident = nextIdent w, elems = pts\<rparr>;
                  newBounds = getBoundsFromPoints E pts None
              in Inr (shape\<lparr>points := newPoints,
                            point := vec_sub (Vec2 (minX bounds) (minY bounds))
                                       (Vec2 (minX newBounds) (minY newBounds))\<rparr>,
                      w\<lparr>nextIdent := Suc (nextIdent w)\<rparr>)))"

text \<open>
  \<^verbatim>\<open>applyStyles\<close>: the spread \<^verbatim>\<open>{ ...shape.style, ...style }\<close> takes a key of the partial
  style where it is present; \<^verbatim>\<open>[...shape.points]\<close> is a new array.
\<close>

definition mergeStyles :: "ShapeStyles \<Rightarrow> PartialStyles \<Rightarrow> ShapeStyles" where
  "mergeStyles base part =
     \<lparr>color = (case p_color part of None \<Rightarrow> color base | Some c \<Rightarrow> c),
      size = (case p_size part of None \<Rightarrow> size base | Some s \<Rightarrow> s),
      dash = (case p_dash part of None \<Rightarrow> dash base | Some d \<Rightarrow> d),
      isFilled = (case p_isFilled part of None \<Rightarrow> isFilled base | Some f \<Rightarrow> f)\<rparr>"

definition applyStyles :: "world \<Rightarrow> DrawShape \<Rightarrow> PartialStyles \<Rightarrow> DrawShape \<times> world" where
  "applyStyles w shape part =
     (let styles = mergeStyles (style shape) part;
          styles = styles\<lparr>isFilled := False\<rparr>;
          styles = styles\<lparr>dash := Solid\<rparr>
      in (shape\<lparr>style := styles,
                points := \<lparr>ident = nextIdent w, elems = elems (points shape)\<rparr>\<rparr>,
          w\<lparr>nextIdent := Suc (nextIdent w)\<rparr>))"

definition canStyleFill :: bool where
  "canStyleFill = False"

subsection \<open>The outline path\<close>

definition simulatePressureSettings :: PressureSettings where
  "simulatePressureSettings = \<lparr>easing = None, simulatePressure = True\<rparr>"

definition realPressureSettings :: PressureSettings where
  "realPressureSettings = \<lparr>easing = Some (\<lambda>t. t * t), simulatePressure = False\<rparr>"

text \<open>The \<^verbatim>\<open>options\<close> constant of \<^verbatim>\<open>renderPath\<close>, read once two points exist.\<close>

definition pressureOptions :: "DrawShape \<Rightarrow> PressureSettings" where
  "pressureOptions shape =
     (if third (elems (points shape) ! 1) = Some (1 / 2)
      then simulatePressureSettings else realPressureSettings)"

text \<open>The object literal passed to \<^verbatim>\<open>getStroke\<close>, the chosen options spread into it.\<close>

definition strokeOptions :: "helpers \<Rightarrow> DrawShape \<Rightarrow> ShapeStyles \<Rightarrow> StrokeOptions" where
  "strokeOptions E shape st =
     (let styles = getShapeStyle E st; options = pressureOptions shape
      in \<lparr>easing = easing options, simulatePressure = simulatePressure options,
          stroke_size = 1 + strokeWidth styles * 2,
          thinning = 85 / 100,
          end_taper = strokeWidth styles * 20,
          start_taper = strokeWidth styles * 20\<rparr>)"

definition renderPath :: "helpers \<Rightarrow> world \<Rightarrow> DrawShape \<Rightarrow> ShapeStyles \<Rightarrow> world" where
  "renderPath E w shape st =
     (if length (elems (points shape)) < 2 then
        w\<lparr>pathCache := (pathCache w)(ident (points shape) \<mapsto> [])\<rparr>
      else
        (let stroke = getStroke E (elems (points shape)) (strokeOptions E shape st)
         in w\<lparr>pathCache :=
               (pathCache w)(ident (points shape) \<mapsto> getSvgPathFromStroke E stroke)\<rparr>))"

definition render :: "helpers \<Rightarrow> world \<Rightarrow> DrawShape \<Rightarrow> element \<times> world" where
  "render E w shape =
     (let styles = getShapeStyle E (style shape);
          w' = (if pathCache w (ident (points shape)) = None
                then renderPath E w shape (style shape) else w)
      in if length (elems (points shape)) < 2
         then (Circle (shape_id shape) (strokeWidth styles * (618 / 1000)) (stroke styles), w')
         else (Path (shape_id shape) (pathCache w' (ident (points shape))) (stroke styles), w'))"

subsection \<open>An instance of the helpers\<close>

text \<open>
  Modelled from the spec: \<^verbatim>\<open>getBoundsFromPoints\<close> of \<^verbatim>\<open>utils/utils\<close> is missing; the
  specification has it compute the axis-aligned box enclosing a point set. \<open>extent\<close> is
  that box for a non-empty list of points; on each axis it spans the coordinates that are
  reals.
\<close>

definition reals :: "('a \<Rightarrow> number) \<Rightarrow> 'a list \<Rightarrow> real list" where
  "reals f ps = List.map_filter (\<lambda>p. fin (f p)) ps"

definition extent :: "number vec list \<Rightarrow> Bounds" where
  "extent pts =
     \<lparr>minX = Min (set (reals vx pts)), minY = Min (set (reals vy pts)),
      width = Max (set (reals vx pts)) - Min (set (reals vx pts)),
      height = Max (set (reals vy pts)) - Min (set (reals vy pts))\<rparr>"

text \<open>
  One instance of the record of helpers, to run the module on concrete inputs. Each field
  follows what the specification says of the helper (rotate about a point, the box of the
  points pre-rotated by the rotation, a box fully inside another, the crossings of a
  polyline with the sides of a box, the distance from a point to a segment, a style
  resolved to a number and a colour, an outline polygon and its path description).
  Nothing is claimed about the missing code through it.
\<close>

definition sample_rotWith :: "number vec \<Rightarrow> real vec \<Rightarrow> real \<Rightarrow> number vec" where
  "sample_rotWith A C r =
     Vec2 (Num (vx C) + (vx A - Num (vx C)) * Num (cos r) - (vy A - Num (vy C)) * Num (sin r))
          (Num (vy C) + (vx A - Num (vx C)) * Num (sin r) + (vy A - Num (vy C)) * Num (cos r))"

definition sample_getBoundsFromPoints :: "number vec list \<Rightarrow> real option \<Rightarrow> Bounds" where
  "sample_getBoundsFromPoints pts rot =
     (case rot of
        None \<Rightarrow> extent pts
      | Some r \<Rightarrow>
          extent (map (\<lambda>p. sample_rotWith p (getBoundsCenter (extent pts)) r) pts))"

definition sample_boundsContain :: "Bounds \<Rightarrow> Bounds \<Rightarrow> bool" where
  "sample_boundsContain a b \<longleftrightarrow>
     minX a \<le> minX b \<and> minY a \<le> minY b \<and>
     minX b + width b \<le> minX a + width a \<and> minY b + height b \<le> minY a + height a"

text \<open>The point where the segments \<open>a1 a2\<close> and \<open>b1 b2\<close> cross, if they do.\<close>

definition crossing :: "real vec \<Rightarrow> real vec \<Rightarrow> real vec \<Rightarrow> real vec \<Rightarrow> real vec list" where
  "crossing a1 a2 b1 b2 =
     (let rx = vx a2 - vx a1; ry = vy a2 - vy a1;
          sx = vx b2 - vx b1; sy = vy b2 - vy b1;
          d = rx * sy - ry * sx
      in if d = 0 then []
         else (let t = ((vx b1 - vx a1) * sy - (vy b1 - vy a1) * sx) / d;
                   u = ((vx b1 - vx a1) * ry - (vy b1 - vy a1) * rx) / d
               in if 0 \<le> t \<and> t \<le> 1 \<and> 0 \<le> u \<and> u \<le> 1
                  then [Vec2 (vx a1 + t * rx) (vy a1 + t * ry)] else []))"

definition sides :: "Bounds \<Rightarrow> (real vec \<times> real vec) list" where
  "sides b =
     (let x0 = minX b; y0 = minY b; x1 = minX b + width b; y1 = minY b + height b
      in [(Vec2 x0 y0, Vec2 x1 y0), (Vec2 x1 y0, Vec2 x1 y1),
          (Vec2 x1 y1, Vec2 x0 y1), (Vec2 x0 y1, Vec2 x0 y0)])"

text \<open>A sample point as a position in the plane, if both its coordinates are reals.\<close>

definition position :: "number vec \<Rightarrow> real vec option" where
  "position p =
     (case (fin (vx p), fin (vy p)) of
        (Some x, Some y) \<Rightarrow> Some (Vec2 x y)
      | _ \<Rightarrow> None)"

text \<open>Segments with an end point that is no position are passed over.\<close>

definition sample_intersectPolylineBounds :: "number vec list \<Rightarrow> Bounds \<Rightarrow> real vec list" where
  "sample_intersectPolylineBounds pts b =
     concat (map (\<lambda>(p, q).
                case (position p, position q) of
                  (Some a1, Some a2) \<Rightarrow> concat (map (\<lambda>(c, d). crossing a1 a2 c d) (sides b))
                | _ \<Rightarrow> [])
               (zip pts (tl pts)))"

definition segmentDistance :: "real vec \<Rightarrow> real vec \<Rightarrow> real vec \<Rightarrow> real" where
  "segmentDistance A B P =
     (let dx = vx B - vx A; dy = vy B - vy A; d2 = dx * dx + dy * dy;
          t = (if d2 = 0 then 0
               else max 0 (min 1 (((vx P - vx A) * dx + (vy P - vy A) * dy) / d2)));
          cx = vx A + t * dx; cy = vy A + t * dy
      in sqrt ((vx P - cx) * (vx P - cx) + (vy P - cy) * (vy P - cy)))"

text \<open>
  The distance to a segment with an end point that is no position is no real; the
  instance gives the distance to the other end point, or 0 when there is none.
\<close>

definition sample_distanceToLineSegment :: "number vec \<Rightarrow> number vec \<Rightarrow> real vec \<Rightarrow> real" where
  "sample_distanceToLineSegment A B P =
     (case (position A, position B) of
        (Some a, Some b) \<Rightarrow> segmentDistance a b P
      | (Some a, None) \<Rightarrow> segmentDistance a a P
      | (None, Some b) \<Rightarrow> segmentDistance b b P
      | (None, None) \<Rightarrow> 0)"

definition sample_getShapeStyle :: "ShapeStyles \<Rightarrow> ResolvedStyle" where
  "sample_getShapeStyle st =
     \<lparr>strokeWidth = (if size st = ''Small'' then 2 else if size st = ''Medium'' then 4 else 8),
      stroke = color st\<rparr>"

definition sample_getStroke :: "number vec list \<Rightarrow> StrokeOptions \<Rightarrow> number vec list" where
  "sample_getStroke pts opts =
     map (\<lambda>p. Vec2 (vx p) (vy p - Num (stroke_size opts / 2))) pts @
     rev (map (\<lambda>p. Vec2 (vx p) (vy p + Num (stroke_size opts / 2))) pts)"

definition sample_getSvgPathFromStroke :: "number vec list \<Rightarrow> string" where
  "sample_getSvgPathFromStroke outline =
     (case outline of [] \<Rightarrow> [] | p # rest \<Rightarrow> ''M'' @ concat (map (\<lambda>q. ''L'') rest) @ ''Z'')"

definition sample_helpers :: helpers where
  "sample_helpers =
     \<lparr>getBoundsFromPoints = sample_getBoundsFromPoints,
      boundsContain = sample_boundsContain,
      intersectPolylineBounds = sample_intersectPolylineBounds,
      rotWith = sample_rotWith,
      distanceToLineSegment = sample_distanceToLineSegment,
      getShapeStyle = sample_getShapeStyle,
      getStroke = sample_getStroke,
      getSvgPathFromStroke = sample_getSvgPathFromStroke\<rparr>"

text \<open>A world with empty caches, and a shape as \<^verbatim>\<open>create\<close> fills its fields.\<close>

definition emptyWorld :: world where
  "emptyWorld =
     \<lparr>boundsCache = Map.empty, rotatedCache = Map.empty, pathCache = Map.empty,
      nextIdent = 100\<rparr>"

definition mkShape :: "nat \<Rightarrow> real vec \<Rightarrow> PointsArray \<Rightarrow> real \<Rightarrow> DrawShape" where
  "mkShape i anchor pts rot =
     \<lparr>oid = i, shape_id = ''shape'', isGenerated = False, name = ''Draw'',
      parentId = ''page0'', childIndex = 0, point = anchor, points = pts, rotation = rot,
      isAspectRatioLocked = False, isLocked = False, isHidden = False,
      style = \<lparr>color = ''Black'', size = ''Medium'', dash = Solid, isFilled = False\<rparr>\<rparr>"

subsection \<open>Notions used by the properties\<close>

text \<open>
  The local box \<^verbatim>\<open>getBounds\<close> works with in a world: the cached one when the shape has
  an entry, the freshly computed one otherwise.
\<close>

definition localBox :: "helpers \<Rightarrow> world \<Rightarrow> DrawShape \<Rightarrow> Bounds" where
  "localBox E w s =
     (case boundsCache w (oid s) of
        None \<Rightarrow> getBoundsFromPoints E (elems (points s)) None
      | Some cached \<Rightarrow> cached)"

text \<open>
  The bounds cache is coherent for a shape when its entry, if there is one, is the local
  box of the points the shape holds now.
\<close>

definition boundsCoherent :: "helpers \<Rightarrow> world \<Rightarrow> DrawShape \<Rightarrow> bool" where
  "boundsCoherent E w s \<longleftrightarrow>
     (case boundsCache w (oid s) of
        None \<Rightarrow> True
      | Some cached \<Rightarrow> cached = getBoundsFromPoints E (elems (points s)) None)"

text \<open>The value the callback of \<^verbatim>\<open>transform\<close> returns when there is a cached box.\<close>

definition remapped :: "Bounds \<Rightarrow> Bounds \<Rightarrow> real \<Rightarrow> real \<Rightarrow> number vec \<Rightarrow> number vec" where
  "remapped ib bounds scaleX scaleY p =
     Vec2 (Num (width bounds) *
             (if scaleX < 0 then 1 - vx p / Num (width ib) else vx p / Num (width ib)))
          (Num (height bounds) *
             (if scaleY < 0 then 1 - vy p / Num (height ib) else vy p / Num (height ib)))"

text \<open>
  The normalized offset of an abscissa (an ordinate) within a box: its distance from
  the min corner as a fraction of the width (the height).
\<close>

definition offsetX :: "Bounds \<Rightarrow> real \<Rightarrow> real" where
  "offsetX b x = (x - minX b) / width b"

definition offsetY :: "Bounds \<Rightarrow> real \<Rightarrow> real" where
  "offsetY b y = (y - minY b) / height b"

text \<open>
  The abscissas of the points are the reals \<open>xs\<close> and the box spans them; the same for
  the ordinates.
\<close>

definition spansX :: "Bounds \<Rightarrow> number vec list \<Rightarrow> real list \<Rightarrow> bool" where
  "spansX b pts xs \<longleftrightarrow>
     map vx pts = map Num xs \<and> minX b = Min (set xs) \<and>
     width b = Max (set xs) - Min (set xs)"

definition spansY :: "Bounds \<Rightarrow> number vec list \<Rightarrow> real list \<Rightarrow> bool" where
  "spansY b pts ys \<longleftrightarrow>
     map vy pts = map Num ys \<and> minY b = Min (set ys) \<and>
     height b = Max (set ys) - Min (set ys)"

text \<open>
  What the mirror property takes from the bounds helper, axis by axis: for two points or
  more whose abscissas (ordinates) are reals, the min corner of the box lies at the
  least of them.
\<close>

definition minCornerX :: "helpers \<Rightarrow> bool" where
  "minCornerX E \<longleftrightarrow>
     (\<forall>pts rs. 2 \<le> length pts \<and> map vx pts = map Num rs \<longrightarrow>
        minX (getBoundsFromPoints E pts None) = Min (set rs))"

definition minCornerY :: "helpers \<Rightarrow> bool" where
  "minCornerY E \<longleftrightarrow>
     (\<forall>pts rs. 2 \<le> length pts \<and> map vy pts = map Num rs \<longrightarrow>
        minY (getBoundsFromPoints E pts None) = Min (set rs))"

text \<open>The shape a call of \<^verbatim>\<open>transform\<close> leaves, if the call returns.\<close>

definition resultShape :: "error + DrawShape \<times> world \<Rightarrow> DrawShape option" where
  "resultShape r = (case r of Inl e \<Rightarrow> None | Inr (s, w) \<Rightarrow> Some s)"

definition resultPoints :: "error + DrawShape \<times> world \<Rightarrow> number vec list option" where
  "resultPoints r = map_option (\<lambda>s. elems (points s)) (resultShape r)"

definition resultAnchor :: "error + DrawShape \<times> world \<Rightarrow> real vec option" where
  "resultAnchor r = map_option point (resultShape r)"

subsection \<open>Concrete shapes and worlds\<close>

text \<open>
  A diagonal stroke held by two objects, the live shape and the snapshot a resize
  gesture keeps, both with their bounds cached by a call of \<^verbatim>\<open>getBounds\<close>.
\<close>

definition diagonal :: PointsArray where
  "diagonal = \<lparr>ident = 7, elems = [Vec2 0 0, Vec2 5 5]\<rparr>"

definition liveShape :: DrawShape where
  "liveShape = mkShape 1 (Vec2 0 0) diagonal 0"

definition snapShape :: DrawShape where
  "snapShape = mkShape 2 (Vec2 0 0) diagonal 0"

definition cachedWorld :: world where
  "cachedWorld =
     snd (getBounds sample_helpers (snd (getBounds sample_helpers emptyWorld liveShape))
            snapShape)"

definition box10 :: Bounds where
  "box10 = \<lparr>minX = 0, minY = 0, width = 10, height = 10\<rparr>"

text \<open>The live shape once \<^verbatim>\<open>transform\<close> has resized it into \<open>box10\<close>.\<close>

definition resizedShape :: DrawShape where
  "resizedShape =
     liveShape\<lparr>points := \<lparr>ident = 100, elems = [Vec2 0 0, Vec2 10 10]\<rparr>, point := Vec2 0 0\<rparr>"

definition resizedWorld :: world where
  "resizedWorld = cachedWorld\<lparr>nextIdent := 101\<rparr>"

text \<open>A stroke drawn without a pen: every sample carries the pressure 0.5.\<close>

definition mouseStroke :: PointsArray where
  "mouseStroke = \<lparr>ident = 8, elems = [Vec3 0 0 (1 / 2), Vec3 10 5 (1 / 2)]\<rparr>"

definition mouseShape :: DrawShape where
  "mouseShape = mkShape 3 (Vec2 20 30) mouseStroke 0"

definition mouseWorld :: world where
  "mouseWorld = snd (getBounds sample_helpers emptyWorld mouseShape)"

definition mouseBox :: Bounds where
  "mouseBox = \<lparr>minX = 20, minY = 30, width = 10, height = 5\<rparr>"

definition mouseShapeAfter :: DrawShape where
  "mouseShapeAfter =
     mouseShape\<lparr>points := \<lparr>ident = 100, elems = [Vec2 0 0, Vec2 10 5]\<rparr>,
                 point := Vec2 20 30\<rparr>"

text \<open>A horizontal stroke anchored far from the origin, and two brush boxes.\<close>

definition farShape :: DrawShape where
  "farShape = mkShape 5 (Vec2 100 100) \<lparr>ident = 9, elems = [Vec2 0 0, Vec2 10 0]\<rparr> 0"

definition brushAtOrigin :: Bounds where
  "brushAtOrigin = \<lparr>minX = - 5, minY = - 5, width = 10, height = 10\<rparr>"

definition brushOnStroke :: Bounds where
  "brushOnStroke = \<lparr>minX = 102, minY = 95, width = 6, height = 10\<rparr>"

text \<open>
  The horizontal stroke with its bounds cached (a box of height zero), and a target twice
  as wide.
\<close>

definition farWorld :: world where
  "farWorld = snd (getBounds sample_helpers emptyWorld farShape)"

definition wideBox :: Bounds where
  "wideBox = \<lparr>minX = 100, minY = 100, width = 20, height = 0\<rparr>"

text \<open>
  The horizontal stroke once \<^verbatim>\<open>transform\<close> has mirrored it into \<open>wideBox\<close>: the ordinates are
  NaN, and the ordinate of the anchor is what the bounds helper makes of them.
\<close>

definition farMirrored :: DrawShape where
  "farMirrored =
     farShape\<lparr>points := \<lparr>ident = 100, elems = [Vec2 20 NaN, Vec2 0 NaN]\<rparr>,
               point := Vec2 100 (100 - minY (extent [Vec2 20 NaN, Vec2 0 NaN]))\<rparr>"

text \<open>A vertical stroke on the y axis with its bounds cached (a box of width zero).\<close>

definition uprightShape :: DrawShape where
  "uprightShape = mkShape 7 (Vec2 0 0) \<lparr>ident = 12, elems = [Vec2 0 0, Vec2 0 10]\<rparr> 0"

definition uprightWorld :: world where
  "uprightWorld = snd (getBounds sample_helpers emptyWorld uprightShape)"

text \<open>
  The vertical stroke once \<^verbatim>\<open>transform\<close> has mirrored it top to bottom into \<open>box10\<close>: the
  abscissas are NaN, and the abscissa of the anchor is what the bounds helper makes of
  them.
\<close>

definition uprightMirrored :: DrawShape where
  "uprightMirrored =
     uprightShape\<lparr>points := \<lparr>ident = 100, elems = [Vec2 NaN 10, Vec2 NaN 0]\<rparr>,
                   point := Vec2 (0 - minX (extent [Vec2 NaN 10, Vec2 NaN 0])) 0\<rparr>"

text \<open>A single click: one sample point.\<close>

definition dotShape :: DrawShape where
  "dotShape = mkShape 6 (Vec2 0 0) \<lparr>ident = 10, elems = [Vec3 3 4 (1 / 2)]\<rparr> 0"

definition dashedFilled :: PartialStyles where
  "dashedFilled =
     \<lparr>p_color = None, p_size = Some ''Large'', p_dash = Some Dashed, p_isFilled = Some True\<rparr>"

text \<open>Helpers whose bounds function returns a box unrelated to the points.\<close>

definition noBounds :: helpers where
  "noBounds =
     sample_helpers\<lparr>getBoundsFromPoints :=
       \<lambda>pts rot. \<lparr>minX = 0, minY = 0, width = 0, height = 0\<rparr>\<rparr>"

text \<open>A snapshot of the diagonal stroke recorded with a pen: real pressure values.\<close>

definition penSnapshot :: DrawShape where
  "penSnapshot =
     snapShape\<lparr>points := \<lparr>ident = 11, elems = [Vec3 0 0 (1 / 5), Vec3 5 5 (9 / 10)]\<rparr>\<rparr>"

text \<open>The live shape once \<^verbatim>\<open>transform\<close> has mirrored it horizontally into \<open>box10\<close>.\<close>

definition mirroredShape :: DrawShape where
  "mirroredShape =
     liveShape\<lparr>points := \<lparr>ident = 100, elems = [Vec2 10 0, Vec2 0 10]\<rparr>, point := Vec2 0 0\<rparr>"

section \<open>Properties\<close>

subsection \<open>Auxiliary facts\<close>

lemma sample_fields [simp]:
  "getBoundsFromPoints sample_helpers = sample_getBoundsFromPoints"
  "boundsContain sample_helpers = sample_boundsContain"
  "intersectPolylineBounds sample_helpers = sample_intersectPolylineBounds"
  "rotWith sample_helpers = sample_rotWith"
  "distanceToLineSegment sample_helpers = sample_distanceToLineSegment"
  "getShapeStyle sample_helpers = sample_getShapeStyle"
  "getStroke sample_helpers = sample_getStroke"
  "getSvgPathFromStroke sample_helpers = sample_getSvgPathFromStroke"
  by (simp_all add: sample_helpers_def)

lemma numeral_Num: "(numeral k :: number) = Num (numeral k)"
proof (induction k)
  case One
  show ?case by (simp add: one_number_def)
next
  case (Bit0 k)
  have "(numeral (num.Bit0 k) :: number) = numeral k + numeral k"
    by (rule numeral_Bit0)
  also have "\<dots> = Num (numeral k + numeral k)"
    by (simp only: Bit0 plus_number.simps)
  also have "numeral k + numeral k = (numeral (num.Bit0 k) :: real)"
    by (rule numeral_Bit0 [symmetric])
  finally show ?case .
next
  case (Bit1 k)
  have "(numeral (num.Bit1 k) :: number) = numeral k + numeral k + 1"
    by (rule numeral_Bit1)
  also have "\<dots> = Num (numeral k + numeral k + 1)"
    by (simp only: Bit1 plus_number.simps one_number_def)
  also have "numeral k + numeral k + 1 = (numeral (num.Bit1 k) :: real)"
    by (rule numeral_Bit1 [symmetric])
  finally show ?case .
qed

text \<open>Rules to evaluate numbers and the enclosing box on concrete points.\<close>

lemmas number_eval = zero_number_def one_number_def numeral_Num minus_number_def

lemmas extent_eval = extent_def reals_def List.map_filter_simps number_eval

lemma scale_back: "d \<noteq> 0 \<Longrightarrow> Num d * (x / Num d) = x"
  by (cases x) auto

lemma reals_map_Num: "map f pts = map Num rs \<Longrightarrow> reals f pts = rs"
proof (induction pts arbitrary: rs)
  case Nil
  then show ?case by (simp add: reals_def List.map_filter_simps)
next
  case (Cons p pts)
  then obtain r rs' where rs: "rs = r # rs'" "f p = Num r" "map f pts = map Num rs'"
    by (cases rs) auto
  from Cons.IH [OF rs(3)] have "reals f pts = rs'" .
  then show ?case using rs by (simp add: reals_def List.map_filter_simps)
qed

lemma sample_minCorner: "minCornerX sample_helpers" "minCornerY sample_helpers"
  by (simp_all add: minCornerX_def minCornerY_def sample_helpers_def
      sample_getBoundsFromPoints_def extent_def reals_map_Num)

lemma getBounds_hit:
  "boundsCache w (oid s) = Some b \<Longrightarrow> getBounds E w s = (translateBounds b (point s), w)"
  by (simp add: getBounds_def)

lemma getBounds_miss:
  "boundsCache w (oid s) = None \<Longrightarrow>
   getBounds E w s =
     (translateBounds (getBoundsFromPoints E (elems (points s)) None) (point s),
      w\<lparr>boundsCache :=
          (boundsCache w)(oid s \<mapsto> getBoundsFromPoints E (elems (points s)) None)\<rparr>)"
  by (simp add: getBounds_def Let_def)

lemma translateBounds_zero: "translateBounds b (vec_sub c c) = b"
  by (simp add: translateBounds_def vec_sub_def)

lemma cachedWorld_eq:
  "cachedWorld =
     emptyWorld\<lparr>boundsCache :=
       [1 \<mapsto> \<lparr>minX = 0, minY = 0, width = 5, height = 5\<rparr>,
        2 \<mapsto> \<lparr>minX = 0, minY = 0, width = 5, height = 5\<rparr>]\<rparr>"
  by (simp add: cachedWorld_def getBounds_def emptyWorld_def liveShape_def snapShape_def
      diagonal_def mkShape_def sample_getBoundsFromPoints_def extent_eval Let_def)

lemma mouseWorld_eq:
  "mouseWorld =
     emptyWorld\<lparr>boundsCache := [3 \<mapsto> \<lparr>minX = 0, minY = 0, width = 10, height = 5\<rparr>]\<rparr>"
  by (simp add: mouseWorld_def getBounds_def emptyWorld_def mouseShape_def mouseStroke_def
      mkShape_def sample_getBoundsFromPoints_def extent_eval Let_def)

lemma map_err_remap:
  "map_err (remap (Some ib) bounds sx sy) pts = Inr (map (remapped ib bounds sx sy) pts)"
  by (induction pts) (simp_all add: remap_def remapped_def)

lemma map_err_Inr_set:
  "map_err f xs = Inr ys \<Longrightarrow> y \<in> set ys \<Longrightarrow> \<exists>x \<in> set xs. f x = Inr y"
  by (induction xs arbitrary: ys) (auto split: sum.splits)

lemma remap_Inr_Vec2:
  "remap c bounds sx sy p = Inr q \<Longrightarrow> components q = 2 \<and> third q = None"
  by (auto simp: remap_def split: option.splits if_splits)

lemma transform_ok:
  "boundsCache w (oid s0) = Some ib \<Longrightarrow>
   transform E w s bounds s0 sx sy =
     (let pts = map (remapped ib bounds sx sy) (elems (points s0));
          nb = getBoundsFromPoints E pts None
      in Inr (s\<lparr>points := \<lparr>ident = nextIdent w, elems = pts\<rparr>,
                 point := vec_sub (Vec2 (minX bounds) (minY bounds))
                            (Vec2 (minX nb) (minY nb))\<rparr>,
              w\<lparr>nextIdent := Suc (nextIdent w)\<rparr>))"
  by (simp add: transform_def map_err_remap Let_def)

text \<open>
  \<^verbatim>\<open>transform\<close> throws exactly when there is a point to map and no cache entry. It
  returns on a cached box of zero width (height), with abscissas (ordinates) that are no
  reals.
\<close>

lemma transform_no_cache:
  "boundsCache w (oid s0) = None \<Longrightarrow> elems (points s0) \<noteq> [] \<Longrightarrow>
   transform E w s bounds s0 sx sy = Inl TypeError"
  by (cases "elems (points s0)") (simp_all add: transform_def remap_def)

lemma transform_no_points:
  "elems (points s0) = [] \<Longrightarrow> \<exists>s' w'. transform E w s bounds s0 sx sy = Inr (s', w') \<and>
     elems (points s') = []"
  by (simp add: transform_def Let_def)

lemma zero_divisor: "fin (Num W * (x / Num 0)) = None" "fin (Num W * (1 - x / Num 0)) = None"
  by (cases x; simp add: number_eval)+

lemma transform_zero_width:
  assumes "boundsCache w (oid s0) = Some ib" and "width ib = 0"
    and "transform E w s bounds s0 sx sy = Inr (s', w')"
  shows "\<forall>p \<in> set (elems (points s')). fin (vx p) = None"
  using assms by (auto simp: transform_ok Let_def remapped_def zero_divisor)

lemma transform_zero_height:
  assumes "boundsCache w (oid s0) = Some ib" and "height ib = 0"
    and "transform E w s bounds s0 sx sy = Inr (s', w')"
  shows "\<forall>p \<in> set (elems (points s')). fin (vy p) = None"
  using assms by (auto simp: transform_ok Let_def remapped_def zero_divisor)

lemma transform_resize:
  "transform sample_helpers cachedWorld liveShape box10 snapShape 1 1 =
     Inr (resizedShape, resizedWorld)"
  by (simp add: cachedWorld_eq transform_def remap_def emptyWorld_def liveShape_def
      snapShape_def diagonal_def mkShape_def sample_getBoundsFromPoints_def extent_eval
      Let_def box10_def resizedShape_def resizedWorld_def vec_sub_def)

text \<open>
  The rotated branch of \<^verbatim>\<open>hitTestBounds\<close> on a cache miss: the polyline it tests is
  made of the sample points translated by the anchor, then rotated.
\<close>

lemma hitTestBounds_rotated:
  assumes "rotation s \<noteq> 0" and "rotatedCache (snd (getRotatedBounds E w s)) (oid s) = None"
  shows "fst (hitTestBounds E w s brush) \<longleftrightarrow>
           boundsContain E brush (fst (getRotatedBounds E w s)) \<or>
           intersectPolylineBounds E
             (map (\<lambda>pt. rotWith E (vec_add pt (point s))
                          (getBoundsCenter (fst (getRotatedBounds E w s))) (rotation s))
                (elems (points s))) brush \<noteq> []"
  using assms by (simp add: hitTestBounds_def split_beta Let_def)

lemma farShape_bounds:
  "fst (getBounds sample_helpers emptyWorld farShape) =
     \<lparr>minX = 100, minY = 100, width = 10, height = 0\<rparr>"
  by (simp add: getBounds_def emptyWorld_def farShape_def mkShape_def
      sample_getBoundsFromPoints_def extent_eval translateBounds_def Let_def)

lemma far_local_origin:
  "sample_intersectPolylineBounds (elems (points farShape)) brushAtOrigin = [Vec2 5 0]"
  by (simp add: farShape_def mkShape_def brushAtOrigin_def sample_intersectPolylineBounds_def
      sides_def crossing_def position_def number_eval Let_def)

lemma far_doc_origin:
  "sample_intersectPolylineBounds
     (map (\<lambda>p. vec_add p (point farShape)) (elems (points farShape))) brushAtOrigin = []"
  by (simp add: farShape_def mkShape_def brushAtOrigin_def sample_intersectPolylineBounds_def
      sides_def crossing_def position_def number_eval vec_add_def Let_def)

lemma far_local_onStroke:
  "sample_intersectPolylineBounds (elems (points farShape)) brushOnStroke = []"
  by (simp add: farShape_def mkShape_def brushOnStroke_def sample_intersectPolylineBounds_def
      sides_def crossing_def position_def number_eval Let_def)

lemma far_doc_onStroke:
  "sample_intersectPolylineBounds
     (map (\<lambda>p. vec_add p (point farShape)) (elems (points farShape))) brushOnStroke
   = [Vec2 108 100, Vec2 102 100]"
  by (simp add: farShape_def mkShape_def brushOnStroke_def sample_intersectPolylineBounds_def
      sides_def crossing_def position_def number_eval vec_add_def Let_def)

lemma far_not_contained:
  "\<not> sample_boundsContain brushAtOrigin \<lparr>minX = 100, minY = 100, width = 10, height = 0\<rparr>"
  "\<not> sample_boundsContain brushOnStroke \<lparr>minX = 100, minY = 100, width = 10, height = 0\<rparr>"
  by (simp_all add: sample_boundsContain_def brushAtOrigin_def brushOnStroke_def)

lemma live_first:
  "getBounds sample_helpers emptyWorld liveShape =
     (\<lparr>minX = 0, minY = 0, width = 5, height = 5\<rparr>,
      emptyWorld\<lparr>boundsCache := [1 \<mapsto> \<lparr>minX = 0, minY = 0, width = 5, height = 5\<rparr>]\<rparr>)"
  by (simp add: getBounds_def emptyWorld_def liveShape_def diagonal_def mkShape_def
      sample_getBoundsFromPoints_def extent_eval translateBounds_def Let_def)

lemma live_localBox:
  "localBox sample_helpers emptyWorld liveShape = \<lparr>minX = 0, minY = 0, width = 5, height = 5\<rparr>"
  by (simp add: localBox_def emptyWorld_def liveShape_def diagonal_def mkShape_def
      sample_getBoundsFromPoints_def extent_eval)

lemma rot0: "sample_rotWith (Vec2 (Num a) (Num b)) c 0 = Vec2 (Num a) (Num b)"
  by (simp add: sample_rotWith_def number_eval)

lemma mouse_target:
  "fst (getBounds sample_helpers mouseWorld mouseShape) = mouseBox"
  by (simp add: mouseWorld_eq getBounds_def emptyWorld_def mouseShape_def mkShape_def
      translateBounds_def mouseBox_def)

lemma mouse_transform:
  "transform sample_helpers mouseWorld mouseShape mouseBox mouseShape 1 1 =
     Inr (mouseShapeAfter, mouseWorld\<lparr>nextIdent := 101\<rparr>)"
  by (simp add: mouseWorld_eq transform_def remap_def emptyWorld_def mouseShape_def
      mouseStroke_def mkShape_def sample_getBoundsFromPoints_def extent_eval Let_def
      mouseBox_def mouseShapeAfter_def vec_sub_def)

lemma pen_transform:
  "transform sample_helpers cachedWorld liveShape box10
     penSnapshot (- 1) 1 =
   Inr (mirroredShape, resizedWorld)"
  by (simp add: cachedWorld_eq transform_def remap_def emptyWorld_def liveShape_def
      snapShape_def diagonal_def mkShape_def sample_getBoundsFromPoints_def extent_eval
      Let_def box10_def resizedWorld_def vec_sub_def penSnapshot_def mirroredShape_def)

lemma Min_flip:
  fixes A :: "real set"
  assumes "finite A" "A \<noteq> {}" "0 < W" "0 < d"
  shows "Min ((\<lambda>x. W * (1 - x / d)) ` A) = W * (1 - Max A / d)"
proof (rule Min_eqI)
  show "finite ((\<lambda>x. W * (1 - x / d)) ` A)" using assms by simp
next
  fix y assume "y \<in> (\<lambda>x. W * (1 - x / d)) ` A"
  then obtain x where x: "x \<in> A" "y = W * (1 - x / d)" by blast
  then have "x \<le> Max A" using assms by simp
  then have "x / d \<le> Max A / d" using assms by (simp add: divide_right_mono)
  then show "W * (1 - Max A / d) \<le> y" using assms x by simp
next
  have "Max A \<in> A" using assms by simp
  then show "W * (1 - Max A / d) \<in> (\<lambda>x. W * (1 - x / d)) ` A" by blast
qed

lemma flip_algebra:
  fixes x mn mx W m :: real
  assumes "0 < W" "0 < mx - mn"
  shows "(W * (1 - x / (mx - mn)) + (m - W * (1 - mx / (mx - mn))) - m) / W =
         1 - (x - mn) / (mx - mn)"
proof -
  have "(W * (1 - x / (mx - mn)) + (m - W * (1 - mx / (mx - mn))) - m) / W
        = (W * ((mx - x) / (mx - mn))) / W"
    by (simp add: algebra_simps diff_divide_distrib)
  also have "\<dots> = (mx - x) / (mx - mn)" using assms by simp
  also have "\<dots> = 1 - (x - mn) / (mx - mn)"
    using assms by (simp add: field_simps)
  finally show ?thesis .
qed

lemma Min_flip_list:
  fixes xs :: "real list"
  assumes "xs \<noteq> []" "0 < W" "0 < d"
  shows "Min (set (map (\<lambda>x. W * (1 - x / d)) xs)) = W * (1 - Max (set xs) / d)"
  using Min_flip [of "set xs" W d] assms by simp

text \<open>One axis of the mirror property, on the reals.\<close>

lemma mirror_axis:
  fixes xs :: "real list"
  assumes i: "i < length xs" and W: "0 < W" and d: "0 < Max (set xs) - Min (set xs)"
  shows "(W * (1 - xs ! i / (Max (set xs) - Min (set xs))) +
           (m - Min (set (map (\<lambda>x. W * (1 - x / (Max (set xs) - Min (set xs)))) xs))) - m) / W =
         1 - (xs ! i - Min (set xs)) / (Max (set xs) - Min (set xs))"
proof -
  from i have ne: "xs \<noteq> []" by auto
  show ?thesis
    unfolding Min_flip_list [OF ne W d] using W d by (rule flip_algebra)
qed

lemma spread_two:
  fixes xs :: "real list"
  assumes "0 < Max (set xs) - Min (set xs)" and "xs \<noteq> []"
  shows "2 \<le> length xs"
proof (rule ccontr)
  assume "\<not> 2 \<le> length xs"
  then have "length xs < 2" by simp
  with assms(2) have "length xs = 1" by (cases xs) simp_all
  then obtain x where "xs = [x]" by (auto simp: length_Suc_conv)
  with assms(1) show False by simp
qed

lemma snap_extent:
  "extent (elems (points snapShape)) = \<lparr>minX = 0, minY = 0, width = 5, height = 5\<rparr>"
  by (simp add: snapShape_def mkShape_def diagonal_def extent_eval)

lemma mirror_transform:
  "transform sample_helpers cachedWorld liveShape box10 snapShape (- 1) 1 =
     Inr (mirroredShape, resizedWorld)"
  by (simp add: cachedWorld_eq transform_def remap_def emptyWorld_def liveShape_def
      snapShape_def diagonal_def mkShape_def sample_getBoundsFromPoints_def extent_eval
      Let_def box10_def resizedWorld_def vec_sub_def penSnapshot_def mirroredShape_def)

lemma mirror_axis_points:
  fixes xs :: "real list" and f :: "number vec \<Rightarrow> number"
  assumes new: "\<forall>j < length xs. f (new ! j) = Num (W * (1 - xs ! j / d))"
    and mnb: "mnb = Min (set (map (\<lambda>x. W * (1 - x / d)) xs))"
    and d: "d = Max (set xs) - Min (set xs)" and mib: "mib = Min (set xs)"
    and pos: "0 < W" "0 < d" and i: "i < length xs"
  shows "\<exists>x'. f (new ! i) = Num x' \<and>
           (x' + (mB - mnb) - mB) / W = 1 - (xs ! i - mib) / d \<and>
           x' / W = 1 - xs ! i / d"
proof -
  have "(W * (1 - xs ! i / d) + (mB - mnb) - mB) / W = 1 - (xs ! i - mib) / d"
    unfolding mnb mib d by (rule mirror_axis) (use i pos d in simp_all)
  moreover have "W * (1 - xs ! i / d) / W = 1 - xs ! i / d"
    using pos by simp
  ultimately show ?thesis using new i by blast
qed

lemma farWorld_eq:
  "farWorld =
     emptyWorld\<lparr>boundsCache := [5 \<mapsto> \<lparr>minX = 0, minY = 0, width = 10, height = 0\<rparr>]\<rparr>"
  by (simp add: farWorld_def getBounds_def emptyWorld_def farShape_def mkShape_def
      sample_getBoundsFromPoints_def extent_eval Let_def)

lemma far_transform:
  "transform sample_helpers farWorld farShape wideBox farShape (- 1) 1 =
     Inr (farMirrored, farWorld\<lparr>nextIdent := 101\<rparr>)"
  by (simp add: farWorld_eq transform_def remap_def emptyWorld_def farShape_def mkShape_def
      sample_getBoundsFromPoints_def extent_eval Let_def wideBox_def farMirrored_def
      vec_sub_def)

lemma uprightWorld_eq:
  "uprightWorld =
     emptyWorld\<lparr>boundsCache := [7 \<mapsto> \<lparr>minX = 0, minY = 0, width = 0, height = 10\<rparr>]\<rparr>"
  by (simp add: uprightWorld_def getBounds_def emptyWorld_def uprightShape_def mkShape_def
      sample_getBoundsFromPoints_def extent_eval Let_def)

lemma upright_flip:
  "transform sample_helpers uprightWorld uprightShape box10 uprightShape 1 (- 1) =
     Inr (uprightMirrored, uprightWorld\<lparr>nextIdent := 101\<rparr>)"
  by (simp add: uprightWorld_eq transform_def remap_def emptyWorld_def uprightShape_def
      mkShape_def sample_getBoundsFromPoints_def extent_eval Let_def box10_def
      uprightMirrored_def vec_sub_def)

lemma upright_transform:
  "resultPoints (transform sample_helpers uprightWorld uprightShape box10 uprightShape (- 1) 1) =
     Some [Vec2 NaN 0, Vec2 NaN 10]"
  by (simp add: uprightWorld_eq transform_def remap_def emptyWorld_def uprightShape_def
      mkShape_def resultPoints_def resultShape_def number_eval Let_def box10_def)

subsection \<open>The claims\<close>

text \<open>
  Claim C1 (\<^verbatim>\<open>hitTestBounds\<close>, no rotation). The claim asks for a hit exactly when
  the brush contains the document-space bounds or the document-space polyline, the sample
  points translated by the anchor, meets the brush. The source does translate the bounds,
  but hands the sample points to the intersection test as they are, in the local frame:
  for a shape without rotation the result is the containment of the bounds of
  \<^verbatim>\<open>getBounds\<close> or a crossing of the untranslated points with the brush, whatever the
  helpers compute.
\<close>

theorem hitTestBounds_unrotated:
  assumes "rotation s = 0"
  shows "fst (hitTestBounds E w s brush) \<longleftrightarrow>
           boundsContain E brush (fst (getBounds E w s)) \<or>
           0 < length (intersectPolylineBounds E (elems (points s)) brush)"
  using assms by (simp add: hitTestBounds_def split_beta Let_def)

text \<open>
  For the stroke from (0, 0) to (10, 0) anchored at (100, 100): a brush around the origin,
  a hundred units away from the stroke, is a hit, and a brush across the stroke is none,
  while the document-space test says the opposite in both cases.
\<close>

theorem hitTestBounds_unrotated_witness:
  "rotation farShape = 0 \<and>
   fst (getBounds sample_helpers emptyWorld farShape) =
     \<lparr>minX = 100, minY = 100, width = 10, height = 0\<rparr> \<and>
   fst (hitTestBounds sample_helpers emptyWorld farShape brushAtOrigin) = True \<and>
   boundsContain sample_helpers brushAtOrigin
     (fst (getBounds sample_helpers emptyWorld farShape)) = False \<and>
   intersectPolylineBounds sample_helpers
     (map (\<lambda>p. vec_add p (point farShape)) (elems (points farShape))) brushAtOrigin = [] \<and>
   fst (hitTestBounds sample_helpers emptyWorld farShape brushOnStroke) = False \<and>
   intersectPolylineBounds sample_helpers
     (map (\<lambda>p. vec_add p (point farShape)) (elems (points farShape))) brushOnStroke =
     [Vec2 108 100, Vec2 102 100]"
proof -
  have r: "rotation farShape = 0" by (simp add: farShape_def mkShape_def)
  show ?thesis
    using r hitTestBounds_unrotated [OF r, of sample_helpers emptyWorld brushAtOrigin]
      hitTestBounds_unrotated [OF r, of sample_helpers emptyWorld brushOnStroke]
    by (simp add: farShape_bounds far_local_origin far_doc_origin far_local_onStroke
        far_doc_onStroke far_not_contained)
qed

text \<open>
  Claim C2 (\<^verbatim>\<open>getBounds\<close> and its cache). After a call of \<^verbatim>\<open>getBounds\<close> the cache
  holds the untranslated local box under the shape's identity, and the call returns that box
  translated by the anchor. Every later call on the same object, whatever its fields are
  by then, returns the cached box translated by the current anchor and leaves the world as
  it is; it does so for any helpers \<open>E'\<close>, so the box is not computed again. A repeated call
  returns the same result, and after an assignment to \<^verbatim>\<open>shape.point\<close> alone width and
  height are the same while the min corner has moved by the difference of the anchors.
\<close>

theorem getBounds_cached_local_box:
  "(let (b, w1) = getBounds E w s; lb = localBox E w s
    in boundsCache w1 (oid s) = Some lb \<and>
       b = translateBounds lb (point s) \<and>
       (oid s' = oid s \<longrightarrow> getBounds E' w1 s' = (translateBounds lb (point s'), w1)) \<and>
       getBounds E w1 s = (b, w1) \<and>
       (let b' = fst (getBounds E w1 (s\<lparr>point := p'\<rparr>))
        in width b' = width b \<and> height b' = height b \<and>
           minX b' - minX b = vx p' - vx (point s) \<and>
           minY b' - minY b = vy p' - vy (point s)))"
  by (cases "boundsCache w (oid s)")
     (simp_all add: getBounds_def localBox_def Let_def translateBounds_def)

theorem getBounds_cached_local_box_witness:
  "oid resizedShape = oid liveShape \<and>
   getBounds noBounds (snd (getBounds sample_helpers emptyWorld liveShape))
        (resizedShape\<lparr>point := Vec2 3 4\<rparr>) =
     (\<lparr>minX = 3, minY = 4, width = 5, height = 5\<rparr>,
      snd (getBounds sample_helpers emptyWorld liveShape))"
proof -
  have o: "oid (resizedShape\<lparr>point := Vec2 3 4\<rparr>) = oid liveShape"
    by (simp add: resizedShape_def)
  have t: "translateBounds \<lparr>minX = 0, minY = 0, width = 5, height = 5\<rparr>
             (point (resizedShape\<lparr>point := Vec2 3 4\<rparr>)) =
           \<lparr>minX = 3, minY = 4, width = 5, height = 5\<rparr>"
    by (simp add: translateBounds_def)
  show ?thesis
    using o t getBounds_cached_local_box
      [of sample_helpers emptyWorld liveShape "resizedShape\<lparr>point := Vec2 3 4\<rparr>" noBounds
          "Vec2 3 4"]
    by (simp add: live_first live_localBox Let_def)
qed

text \<open>
  Claim C3 (\<^verbatim>\<open>getRotatedBounds\<close> with rotation 0), as amended. For a shape whose
  rotation is 0 and whose entry in the bounds cache, if it has one, is the local box of the
  points it holds now, \<^verbatim>\<open>getRotatedBounds\<close> returns what \<^verbatim>\<open>getBounds\<close> returns (and
  leaves the same world), provided the bounds helper called with rotation 0 gives the box
  it gives without a rotation.
\<close>

theorem getRotatedBounds_unrotated:
  assumes "rotation s = 0"
    and "getBoundsFromPoints E (elems (points s)) (Some 0) =
         getBoundsFromPoints E (elems (points s)) None"
    and "boundsCoherent E w s"
  shows "getRotatedBounds E w s = getBounds E w s"
proof (cases "boundsCache w (oid s)")
  case None
  then show ?thesis using assms
    by (simp add: getRotatedBounds_def getBounds_miss translateBounds_zero)
next
  case (Some b)
  then show ?thesis using assms
    by (simp add: getRotatedBounds_def getBounds_hit translateBounds_zero boundsCoherent_def)
qed

theorem getRotatedBounds_unrotated_witness:
  "rotation liveShape = 0 \<and>
   getBoundsFromPoints sample_helpers (elems (points liveShape)) (Some 0) =
     getBoundsFromPoints sample_helpers (elems (points liveShape)) None \<and>
   boundsCoherent sample_helpers cachedWorld liveShape \<and>
   getRotatedBounds sample_helpers cachedWorld liveShape =
     (\<lparr>minX = 0, minY = 0, width = 5, height = 5\<rparr>, cachedWorld)"
proof -
  have r: "rotation liveShape = 0" by (simp add: liveShape_def mkShape_def)
  have g: "getBoundsFromPoints sample_helpers (elems (points liveShape)) (Some 0) =
     getBoundsFromPoints sample_helpers (elems (points liveShape)) None"
    by (simp add: liveShape_def mkShape_def diagonal_def sample_getBoundsFromPoints_def rot0
        extent_eval)
  have c: "boundsCoherent sample_helpers cachedWorld liveShape"
    by (simp add: boundsCoherent_def cachedWorld_eq liveShape_def mkShape_def diagonal_def
        sample_getBoundsFromPoints_def extent_eval)
  show ?thesis
    using r g c getRotatedBounds_unrotated [OF r g c]
    by (simp add: getBounds_def cachedWorld_eq liveShape_def mkShape_def translateBounds_def)
qed

text \<open>
  As stated, for every shape of rotation 0, the claim fails: \<^verbatim>\<open>getBounds\<close> keeps the box
  cached under the shape's identity, \<^verbatim>\<open>getRotatedBounds\<close> computes the box of the
  current points. After \<^verbatim>\<open>transform\<close> has resized the live shape, whose bounds were
  cached before, the two differ.
\<close>

theorem getRotatedBounds_stale_counterexample:
  "transform sample_helpers cachedWorld liveShape box10 snapShape 1 1 =
     Inr (resizedShape, resizedWorld) \<and>
   rotation resizedShape = 0 \<and>
   fst (getRotatedBounds sample_helpers resizedWorld resizedShape) =
     \<lparr>minX = - (5 / 2), minY = - (5 / 2), width = 10, height = 10\<rparr> \<and>
   fst (getBounds sample_helpers resizedWorld resizedShape) =
     \<lparr>minX = 0, minY = 0, width = 5, height = 5\<rparr> \<and>
   fst (getRotatedBounds sample_helpers resizedWorld resizedShape) \<noteq>
     fst (getBounds sample_helpers resizedWorld resizedShape)"
proof -
  have b: "fst (getBounds sample_helpers resizedWorld resizedShape) =
     \<lparr>minX = 0, minY = 0, width = 5, height = 5\<rparr>"
    by (simp add: resizedWorld_def cachedWorld_eq getBounds_def emptyWorld_def
        resizedShape_def liveShape_def mkShape_def translateBounds_def)
  have rb: "fst (getRotatedBounds sample_helpers resizedWorld resizedShape) =
     \<lparr>minX = - (5 / 2), minY = - (5 / 2), width = 10, height = 10\<rparr>"
    by (simp add: resizedWorld_def cachedWorld_eq getRotatedBounds_def getBounds_def
        emptyWorld_def resizedShape_def liveShape_def mkShape_def translateBounds_def
        sample_getBoundsFromPoints_def rot0 extent_eval getBoundsCenter_def vec_sub_def Let_def)
  have r: "rotation resizedShape = 0"
    by (simp add: resizedShape_def liveShape_def mkShape_def)
  show ?thesis using transform_resize b rb r by simp
qed

text \<open>
  Claim C4 (\<^verbatim>\<open>transform\<close> with scale 1 into the original bounds), as amended. When the
  cached local box of the initial shape has a width and a height other than zero,
  \<^verbatim>\<open>transform\<close> with both scale factors 1 and the original document-space bounds as
  target returns a shape whose points have the x and y coordinates of the initial points,
  and whose anchor puts the top-left corner of the bounds of the new points at the
  top-left corner of the target.
\<close>

theorem transform_identity_scale:
  assumes c: "boundsCache w (oid s0) = Some ib"
    and nz: "width ib \<noteq> 0" "height ib \<noteq> 0"
  shows "\<exists>s' w'. transform E w s (translateBounds ib (point s0)) s0 1 1 = Inr (s', w') \<and>
           map vx (elems (points s')) = map vx (elems (points s0)) \<and>
           map vy (elems (points s')) = map vy (elems (points s0)) \<and>
           minX (translateBounds (getBoundsFromPoints E (elems (points s')) None) (point s')) =
             minX (translateBounds ib (point s0)) \<and>
           minY (translateBounds (getBoundsFromPoints E (elems (points s')) None) (point s')) =
             minY (translateBounds ib (point s0))"
  using nz
  by (simp add: transform_ok[OF c] Let_def remapped_def translateBounds_def vec_sub_def
      o_def scale_back)

theorem transform_identity_scale_witness:
  "boundsCache mouseWorld (oid mouseShape) = Some \<lparr>minX = 0, minY = 0, width = 10, height = 5\<rparr> \<and>
   (\<exists>s' w'. transform sample_helpers mouseWorld mouseShape mouseBox mouseShape 1 1 = Inr (s', w') \<and>
      map vx (elems (points s')) = [0, 10] \<and> map vy (elems (points s')) = [0, 5] \<and>
      minX (translateBounds (getBoundsFromPoints sample_helpers (elems (points s')) None) (point s')) = 20 \<and>
      minY (translateBounds (getBoundsFromPoints sample_helpers (elems (points s')) None) (point s')) = 30)"
proof -
  have c: "boundsCache mouseWorld (oid mouseShape) =
             Some \<lparr>minX = 0, minY = 0, width = 10, height = 5\<rparr>"
    by (simp add: mouseWorld_eq emptyWorld_def mouseShape_def mkShape_def)
  have t: "translateBounds \<lparr>minX = 0, minY = 0, width = 10, height = 5\<rparr> (point mouseShape) = mouseBox"
    by (simp add: translateBounds_def mouseShape_def mkShape_def mouseBox_def)
  have e: "elems (points mouseShape) = [Vec3 0 0 (1 / 2), Vec3 10 5 (1 / 2)]"
    by (simp add: mouseShape_def mkShape_def mouseStroke_def)
  show ?thesis
    using c transform_identity_scale [OF c, of sample_helpers mouseShape]
    by (simp add: t e mouseBox_def)
qed

text \<open>
  As stated, with every sample point unchanged, the claim fails: the points of a stroke
  with pressure values come back without them. (A cached box of zero width or height is
  the other exception, see \<open>transform_zero_width\<close> and \<open>transform_zero_height\<close>.)
\<close>

theorem transform_identity_scale_counterexample:
  "boundsCache mouseWorld (oid mouseShape) = Some \<lparr>minX = 0, minY = 0, width = 10, height = 5\<rparr> \<and>
   fst (getBounds sample_helpers mouseWorld mouseShape) = mouseBox \<and>
   transform sample_helpers mouseWorld mouseShape mouseBox mouseShape 1 1 =
     Inr (mouseShapeAfter, mouseWorld\<lparr>nextIdent := 101\<rparr>) \<and>
   elems (points mouseShape) = [Vec3 0 0 (1 / 2), Vec3 10 5 (1 / 2)] \<and>
   elems (points mouseShapeAfter) = [Vec2 0 0, Vec2 10 5] \<and>
   elems (points mouseShapeAfter) \<noteq> elems (points mouseShape)"
  using mouse_target mouse_transform
  by (simp add: mouseWorld_eq emptyWorld_def mouseShape_def mouseShapeAfter_def mkShape_def
      mouseStroke_def)

text \<open>
  Claim C5 (\<^verbatim>\<open>transform\<close> mirrors under a negative scale), as amended, axis by axis.
  With a cache entry for the initial shape \<^verbatim>\<open>transform\<close> returns a shape with as many
  points. If \<open>scaleX\<close> is negative, the cached box spans the abscissas of the initial
  points and has a positive width, the target has a positive width, and the bounds
  helper puts the min corner at the least abscissa, then the abscissa of every new point
  is a real whose normalized offset, taken in document space within the target, is 1
  minus the normalized offset of the old abscissa within the cached box; and the
  proportion the source itself computes, new x over target width, is 1 minus old x over
  cached width. Nothing is asked of the heights. With a negative \<open>scaleY\<close> the same holds
  on the y axis, nothing being asked of the widths.
\<close>

theorem transform_mirrors:
  assumes cache: "boundsCache w (oid s0) = Some ib"
  shows "\<exists>s' w'. transform E w s bounds s0 scaleX scaleY = Inr (s', w') \<and>
           length (elems (points s')) = length (elems (points s0)) \<and>
           (scaleX < 0 \<and> 0 < width ib \<and> 0 < width bounds \<and>
            spansX ib (elems (points s0)) xs \<and> minCornerX E \<longrightarrow>
              (\<forall>i < length xs. \<exists>x'.
                 vx (elems (points s') ! i) = Num x' \<and>
                 offsetX bounds (x' + vx (point s')) = 1 - offsetX ib (xs ! i) \<and>
                 x' / width bounds = 1 - xs ! i / width ib)) \<and>
           (scaleY < 0 \<and> 0 < height ib \<and> 0 < height bounds \<and>
            spansY ib (elems (points s0)) ys \<and> minCornerY E \<longrightarrow>
              (\<forall>i < length ys. \<exists>y'.
                 vy (elems (points s') ! i) = Num y' \<and>
                 offsetY bounds (y' + vy (point s')) = 1 - offsetY ib (ys ! i) \<and>
                 y' / height bounds = 1 - ys ! i / height ib))"
proof -
  let ?old = "elems (points s0)"
  let ?new = "map (remapped ib bounds scaleX scaleY) ?old"
  let ?nb = "getBoundsFromPoints E ?new None"
  let ?s' = "s\<lparr>points := \<lparr>ident = nextIdent w, elems = ?new\<rparr>,
               point := vec_sub (Vec2 (minX bounds) (minY bounds)) (Vec2 (minX ?nb) (minY ?nb))\<rparr>"
  have tr: "transform E w s bounds s0 scaleX scaleY =
              Inr (?s', w\<lparr>nextIdent := Suc (nextIdent w)\<rparr>)"
    by (simp add: transform_ok[OF cache] Let_def)
  have X: "\<exists>x'. vx (?new ! i) = Num x' \<and>
             offsetX bounds (x' + vx (point ?s')) = 1 - offsetX ib (xs ! i) \<and>
             x' / width bounds = 1 - xs ! i / width ib"
    if sx: "scaleX < 0" and pos: "0 < width ib" "0 < width bounds"
      and sp: "spansX ib ?old xs" and mc: "minCornerX E" and i: "i < length xs" for i
  proof -
    let ?f = "\<lambda>x. width bounds * (1 - x / width ib)"
    from sp have m: "map vx ?old = map Num xs" and mn: "minX ib = Min (set xs)"
      and wd: "width ib = Max (set xs) - Min (set xs)"
      by (simp_all add: spansX_def)
    from m have len: "length ?old = length xs" by (rule map_eq_imp_length_eq)
    have old: "vx (?old ! j) = Num (xs ! j)" if "j < length xs" for j
    proof -
      have "map vx ?old ! j = map Num xs ! j" using m by simp
      then show ?thesis using that len by simp
    qed
    have new: "\<forall>j < length xs. vx (?new ! j) = Num (?f (xs ! j))"
      using old len sx pos by (simp add: remapped_def number_eval)
    then have "map vx ?new = map Num (map ?f xs)"
      using len by (intro nth_equalityI) simp_all
    moreover have "2 \<le> length ?new"
    proof -
      have "xs \<noteq> []" using i by auto
      moreover have "0 < Max (set xs) - Min (set xs)" using pos wd by simp
      ultimately have "2 \<le> length xs" using spread_two by blast
      then show ?thesis using len by simp
    qed
    ultimately have nb: "minX ?nb = Min (set (map ?f xs))"
      using mc unfolding minCornerX_def by blast
    have "\<exists>x'. vx (?new ! i) = Num x' \<and>
            (x' + (minX bounds - minX ?nb) - minX bounds) / width bounds =
              1 - (xs ! i - minX ib) / width ib \<and>
            x' / width bounds = 1 - xs ! i / width ib"
      using new nb wd mn pos(2) pos(1) i by (rule mirror_axis_points)
    then show ?thesis by (simp add: offsetX_def vec_sub_def)
  qed
  have Y: "\<exists>y'. vy (?new ! i) = Num y' \<and>
             offsetY bounds (y' + vy (point ?s')) = 1 - offsetY ib (ys ! i) \<and>
             y' / height bounds = 1 - ys ! i / height ib"
    if sy: "scaleY < 0" and pos: "0 < height ib" "0 < height bounds"
      and sp: "spansY ib ?old ys" and mc: "minCornerY E" and i: "i < length ys" for i
  proof -
    let ?f = "\<lambda>y. height bounds * (1 - y / height ib)"
    from sp have m: "map vy ?old = map Num ys" and mn: "minY ib = Min (set ys)"
      and wd: "height ib = Max (set ys) - Min (set ys)"
      by (simp_all add: spansY_def)
    from m have len: "length ?old = length ys" by (rule map_eq_imp_length_eq)
    have old: "vy (?old ! j) = Num (ys ! j)" if "j < length ys" for j
    proof -
      have "map vy ?old ! j = map Num ys ! j" using m by simp
      then show ?thesis using that len by simp
    qed
    have new: "\<forall>j < length ys. vy (?new ! j) = Num (?f (ys ! j))"
      using old len sy pos by (simp add: remapped_def number_eval)
    then have "map vy ?new = map Num (map ?f ys)"
      using len by (intro nth_equalityI) simp_all
    moreover have "2 \<le> length ?new"
    proof -
      have "ys \<noteq> []" using i by auto
      moreover have "0 < Max (set ys) - Min (set ys)" using pos wd by simp
      ultimately have "2 \<le> length ys" using spread_two by blast
      then show ?thesis using len by simp
    qed
    ultimately have nb: "minY ?nb = Min (set (map ?f ys))"
      using mc unfolding minCornerY_def by blast
    have "\<exists>y'. vy (?new ! i) = Num y' \<and>
            (y' + (minY bounds - minY ?nb) - minY bounds) / height bounds =
              1 - (ys ! i - minY ib) / height ib \<and>
            y' / height bounds = 1 - ys ! i / height ib"
      using new nb wd mn pos(2) pos(1) i by (rule mirror_axis_points)
    then show ?thesis by (simp add: offsetY_def vec_sub_def)
  qed
  show ?thesis
    apply (rule exI[of _ ?s'], rule exI[of _ "w\<lparr>nextIdent := Suc (nextIdent w)\<rparr>"])
    using tr X Y by simp
qed

text \<open>
  The horizontal stroke from (0, 0) to (10, 0), anchored at (100, 100), mirrored into a
  box twice as wide: the cached box has height zero and the new ordinates are NaN, yet
  the abscissas are mirrored, from the offsets 0 and 1 to the offsets 1 and 0. And the
  vertical stroke from (0, 0) to (0, 10) mirrored top to bottom: the abscissas are NaN,
  the ordinates are mirrored.
\<close>

theorem transform_mirrors_witness:
  "boundsCache farWorld (oid farShape) = Some \<lparr>minX = 0, minY = 0, width = 10, height = 0\<rparr> \<and>
   0 < width wideBox \<and>
   spansX \<lparr>minX = 0, minY = 0, width = 10, height = 0\<rparr> (elems (points farShape)) [0, 10] \<and>
   transform sample_helpers farWorld farShape wideBox farShape (- 1) 1 =
     Inr (farMirrored, farWorld\<lparr>nextIdent := 101\<rparr>) \<and>
   elems (points farMirrored) = [Vec2 20 NaN, Vec2 0 NaN] \<and>
   vx (point farMirrored) = 100 \<and>
   offsetX wideBox (20 + vx (point farMirrored)) =
     1 - offsetX \<lparr>minX = 0, minY = 0, width = 10, height = 0\<rparr> 0 \<and>
   offsetX wideBox (0 + vx (point farMirrored)) =
     1 - offsetX \<lparr>minX = 0, minY = 0, width = 10, height = 0\<rparr> 10 \<and>
   boundsCache uprightWorld (oid uprightShape) =
     Some \<lparr>minX = 0, minY = 0, width = 0, height = 10\<rparr> \<and>
   0 < height box10 \<and>
   spansY \<lparr>minX = 0, minY = 0, width = 0, height = 10\<rparr> (elems (points uprightShape)) [0, 10] \<and>
   transform sample_helpers uprightWorld uprightShape box10 uprightShape 1 (- 1) =
     Inr (uprightMirrored, uprightWorld\<lparr>nextIdent := 101\<rparr>) \<and>
   elems (points uprightMirrored) = [Vec2 NaN 10, Vec2 NaN 0] \<and>
   vy (point uprightMirrored) = 0 \<and>
   offsetY box10 (10 + vy (point uprightMirrored)) =
     1 - offsetY \<lparr>minX = 0, minY = 0, width = 0, height = 10\<rparr> 0 \<and>
   offsetY box10 (0 + vy (point uprightMirrored)) =
     1 - offsetY \<lparr>minX = 0, minY = 0, width = 0, height = 10\<rparr> 10"
proof -
  let ?ib = "\<lparr>minX = 0, minY = 0, width = 10, height = 0\<rparr> :: Bounds"
  let ?ub = "\<lparr>minX = 0, minY = 0, width = 0, height = 10\<rparr> :: Bounds"
  have c: "boundsCache farWorld (oid farShape) = Some ?ib"
    by (simp add: farWorld_eq emptyWorld_def farShape_def mkShape_def)
  have sp: "spansX ?ib (elems (points farShape)) [0, 10]"
    by (simp add: spansX_def farShape_def mkShape_def number_eval)
  have w: "0 < width wideBox" by (simp add: wideBox_def)
  have e: "elems (points farMirrored) = [Vec2 20 NaN, Vec2 0 NaN]"
    by (simp add: farMirrored_def)
  have a: "vx (point farMirrored) = 100" by (simp add: farMirrored_def)
  from transform_mirrors [OF c, of sample_helpers farShape wideBox "- 1" 1 "[0, 10]"]
  have full: "\<forall>i < Suc (Suc 0). \<exists>x'.
          vx (elems (points farMirrored) ! i) = Num x' \<and>
          offsetX wideBox (x' + vx (point farMirrored)) = 1 - offsetX ?ib ([0, 10] ! i) \<and>
          x' / width wideBox = 1 - [0, 10] ! i / 10"
    using sp w sample_minCorner(1) by (simp add: far_transform)
  have all: "\<exists>x'. vx (elems (points farMirrored) ! i) = Num x' \<and>
          offsetX wideBox (x' + vx (point farMirrored)) = 1 - offsetX ?ib ([0, 10] ! i)"
    if "i < 2" for i
  proof -
    from that have "i < Suc (Suc 0)" by simp
    with full show ?thesis by blast
  qed
  from all [of 0] all [of 1] have
    "\<exists>x'. vx (elems (points farMirrored) ! 0) = Num x' \<and>
        offsetX wideBox (x' + vx (point farMirrored)) = 1 - offsetX ?ib ([0, 10] ! 0)"
    "\<exists>x'. vx (elems (points farMirrored) ! 1) = Num x' \<and>
        offsetX wideBox (x' + vx (point farMirrored)) = 1 - offsetX ?ib ([0, 10] ! 1)"
    by simp_all
  then have X:
    "offsetX wideBox (20 + vx (point farMirrored)) = 1 - offsetX ?ib 0"
    "offsetX wideBox (0 + vx (point farMirrored)) = 1 - offsetX ?ib 10"
    by (simp_all add: e number_eval)
  have c': "boundsCache uprightWorld (oid uprightShape) = Some ?ub"
    by (simp add: uprightWorld_eq emptyWorld_def uprightShape_def mkShape_def)
  have sp': "spansY ?ub (elems (points uprightShape)) [0, 10]"
    by (simp add: spansY_def uprightShape_def mkShape_def number_eval)
  have h: "0 < height box10" by (simp add: box10_def)
  have e': "elems (points uprightMirrored) = [Vec2 NaN 10, Vec2 NaN 0]"
    by (simp add: uprightMirrored_def)
  have a': "vy (point uprightMirrored) = 0" by (simp add: uprightMirrored_def)
  from transform_mirrors
    [OF c', of sample_helpers uprightShape box10 1 "- 1" _ "[0, 10]"]
  have full': "\<forall>i < Suc (Suc 0). \<exists>y'.
          vy (elems (points uprightMirrored) ! i) = Num y' \<and>
          offsetY box10 (y' + vy (point uprightMirrored)) = 1 - offsetY ?ub ([0, 10] ! i) \<and>
          y' / height box10 = 1 - [0, 10] ! i / 10"
    using sp' h sample_minCorner(2) by (simp add: upright_flip)
  have all': "\<exists>y'. vy (elems (points uprightMirrored) ! i) = Num y' \<and>
          offsetY box10 (y' + vy (point uprightMirrored)) = 1 - offsetY ?ub ([0, 10] ! i)"
    if "i < 2" for i
  proof -
    from that have "i < Suc (Suc 0)" by simp
    with full' show ?thesis by blast
  qed
  from all' [of 0] all' [of 1] have
    "\<exists>y'. vy (elems (points uprightMirrored) ! 0) = Num y' \<and>
        offsetY box10 (y' + vy (point uprightMirrored)) = 1 - offsetY ?ub ([0, 10] ! 0)"
    "\<exists>y'. vy (elems (points uprightMirrored) ! 1) = Num y' \<and>
        offsetY box10 (y' + vy (point uprightMirrored)) = 1 - offsetY ?ub ([0, 10] ! 1)"
    by simp_all
  then have Y:
    "offsetY box10 (10 + vy (point uprightMirrored)) = 1 - offsetY ?ub 0"
    "offsetY box10 (0 + vy (point uprightMirrored)) = 1 - offsetY ?ub 10"
    by (simp_all add: e' number_eval)
  show ?thesis
    using c sp w e a far_transform X c' sp' h e' a' upright_flip Y by simp
qed

text \<open>
  As stated, for every shape whose bounds are cached, the claim fails. The vertical stroke
  from (0, 0) to (0, 10) has a cached box of width zero; mirrored with \<open>scaleX = -1\<close> into
  a box of width 10, each point gets the abscissa \<open>10 * (1 - 0 / 0)\<close>, which is NaN: no
  offset equals 1 minus the old one.
\<close>

theorem transform_mirrors_counterexample:
  "boundsCache uprightWorld (oid uprightShape) =
     Some \<lparr>minX = 0, minY = 0, width = 0, height = 10\<rparr> \<and>
   elems (points uprightShape) = [Vec2 0 0, Vec2 0 10] \<and>
   resultPoints (transform sample_helpers uprightWorld uprightShape box10 uprightShape (- 1) 1) =
     Some [Vec2 NaN 0, Vec2 NaN 10] \<and>
   fin (vx (Vec2 NaN 0 :: number vec)) = None \<and>
   fin (vx (Vec2 NaN 10 :: number vec)) = None"
  using upright_transform
  by (simp add: uprightWorld_eq emptyWorld_def uprightShape_def mkShape_def)

text \<open>
  Claim C6 (\<^verbatim>\<open>applyStyles\<close>). Whatever the partial style holds, the resulting style has
  \<open>isFilled\<close> false and \<open>dash\<close> solid, and the shape's points are a new array, of an
  identity other than the one of the array held before (which was allocated earlier, so
  lies below the allocation counter), with the same elements in the same order.
\<close>

theorem applyStyles_forces:
  assumes "ident (points s) < nextIdent w"
  shows "(let (s', w') = applyStyles w s part
          in isFilled (style s') = False \<and> dash (style s') = Solid \<and>
             ident (points s') \<noteq> ident (points s) \<and>
             elems (points s') = elems (points s))"
  using assms by (simp add: applyStyles_def Let_def)

theorem applyStyles_forces_witness:
  "ident (points liveShape) < nextIdent emptyWorld \<and>
   applyStyles emptyWorld liveShape dashedFilled =
     (liveShape\<lparr>style := \<lparr>color = ''Black'', size = ''Large'', dash = Solid, isFilled = False\<rparr>,
                 points := \<lparr>ident = 100, elems = [Vec2 0 0, Vec2 5 5]\<rparr>\<rparr>,
      emptyWorld\<lparr>nextIdent := 101\<rparr>) \<and>
   p_isFilled dashedFilled = Some True \<and> p_dash dashedFilled = Some Dashed \<and>
   ident (points liveShape) = 7"
proof -
  have h: "ident (points liveShape) < nextIdent emptyWorld"
    by (simp add: liveShape_def mkShape_def diagonal_def emptyWorld_def)
  show ?thesis
    using h applyStyles_forces [OF h, of dashedFilled]
    by (simp add: applyStyles_def mergeStyles_def dashedFilled_def liveShape_def mkShape_def
        diagonal_def emptyWorld_def Let_def)
qed

text \<open>
  Claim C7 (the stroke options of \<^verbatim>\<open>renderPath\<close>). With two points or more the path
  stored for the points is the one generated with \<open>strokeOptions\<close>, and these options are
  decided by one test, whether the third coordinate of the second point is exactly 0.5:
  if so pressure is simulated and no easing is set, otherwise the easing is the square
  and pressure is not simulated. Size, thinning and tapers come from the style alone.
\<close>

theorem renderPath_options:
  assumes "2 \<le> length (elems (points s))"
  shows "pathCache (renderPath E w s st) (ident (points s)) =
           Some (getSvgPathFromStroke E
                   (getStroke E (elems (points s)) (strokeOptions E s st))) \<and>
         strokeOptions E s st =
           (if third (elems (points s) ! 1) = Some (1 / 2)
            then \<lparr>easing = None, simulatePressure = True,
                  stroke_size = 1 + strokeWidth (getShapeStyle E st) * 2,
                  thinning = 85 / 100,
                  end_taper = strokeWidth (getShapeStyle E st) * 20,
                  start_taper = strokeWidth (getShapeStyle E st) * 20\<rparr>
            else \<lparr>easing = Some (\<lambda>t. t * t), simulatePressure = False,
                  stroke_size = 1 + strokeWidth (getShapeStyle E st) * 2,
                  thinning = 85 / 100,
                  end_taper = strokeWidth (getShapeStyle E st) * 20,
                  start_taper = strokeWidth (getShapeStyle E st) * 20\<rparr>)"
  using assms
  by (simp add: renderPath_def Let_def strokeOptions_def pressureOptions_def
      simulatePressureSettings_def realPressureSettings_def)

theorem renderPath_options_witness:
  "2 \<le> length (elems (points mouseShape)) \<and>
   third (elems (points mouseShape) ! 1) = Some (1 / 2) \<and>
   simulatePressure (strokeOptions sample_helpers mouseShape (style mouseShape)) = True \<and>
   easing (strokeOptions sample_helpers mouseShape (style mouseShape)) = None \<and>
   2 \<le> length (elems (points liveShape)) \<and>
   third (elems (points liveShape) ! 1) = None \<and>
   simulatePressure (strokeOptions sample_helpers liveShape (style liveShape)) = False \<and>
   easing (strokeOptions sample_helpers liveShape (style liveShape)) = Some (\<lambda>t. t * t) \<and>
   pathCache (renderPath sample_helpers emptyWorld liveShape (style liveShape)) 7 = Some ''MLLLZ''"
proof -
  have m: "2 \<le> length (elems (points mouseShape))"
    and l: "2 \<le> length (elems (points liveShape))"
    by (simp_all add: mouseShape_def liveShape_def mkShape_def mouseStroke_def diagonal_def)
  have tm: "third (elems (points mouseShape) ! 1) = Some (1 / 2)"
    and tl: "third (elems (points liveShape) ! 1) = None"
    and i: "ident (points liveShape) = 7"
    and e: "elems (points liveShape) = [Vec2 0 0, Vec2 5 5]"
    by (simp_all add: mouseShape_def liveShape_def mkShape_def mouseStroke_def diagonal_def)
  show ?thesis
    using m l tm tl i e
      renderPath_options [OF m, of sample_helpers emptyWorld "style mouseShape"]
      renderPath_options [OF l, of sample_helpers emptyWorld "style liveShape"]
    by (simp add: sample_getStroke_def sample_getSvgPathFromStroke_def)
qed

text \<open>
  Claim C8 (fewer than two points). \<^verbatim>\<open>render\<close> returns a circle of radius 0.618 times
  the resolved stroke width, so no path element; \<^verbatim>\<open>renderPath\<close> stores the empty path
  for the points, and that is what the cache holds after \<^verbatim>\<open>render\<close> found no entry for
  them. No error arises: both functions return normally.
\<close>

theorem render_dot:
  assumes "length (elems (points s)) < 2"
  shows "fst (render E w s) =
           Circle (shape_id s) (strokeWidth (getShapeStyle E (style s)) * (618 / 1000))
             (stroke (getShapeStyle E (style s))) \<and>
         pathCache (renderPath E w s st) (ident (points s)) = Some [] \<and>
         (pathCache w (ident (points s)) = None \<longrightarrow>
            pathCache (snd (render E w s)) (ident (points s)) = Some [])"
  using assms by (simp add: render_def renderPath_def Let_def)

theorem render_dot_witness:
  "length (elems (points dotShape)) < 2 \<and>
   pathCache emptyWorld (ident (points dotShape)) = None \<and>
   fst (render sample_helpers emptyWorld dotShape) = Circle ''shape'' (2472 / 1000) ''Black'' \<and>
   pathCache (snd (render sample_helpers emptyWorld dotShape)) (ident (points dotShape)) = Some []"
proof -
  have h: "length (elems (points dotShape)) < 2"
    by (simp add: dotShape_def mkShape_def)
  have n: "pathCache emptyWorld (ident (points dotShape)) = None"
    by (simp add: emptyWorld_def)
  have st: "getShapeStyle sample_helpers (style dotShape) = \<lparr>strokeWidth = 4, stroke = ''Black''\<rparr>"
    and i: "shape_id dotShape = ''shape''"
    by (simp_all add: dotShape_def mkShape_def sample_getShapeStyle_def)
  show ?thesis
    using h n st i render_dot [OF h, of sample_helpers emptyWorld "style dotShape"]
    by simp
qed

text \<open>
  Claim C9 (\<^verbatim>\<open>hitTest\<close> on fewer than two points). With no pair of consecutive points
  there is no segment to test, and \<^verbatim>\<open>hitTest\<close> is false for every query point.
\<close>

theorem hitTest_short:
  assumes "length (elems (points s)) < 2"
  shows "hitTest E s p = False"
proof -
  from assms have "length (elems (points s)) = 0 \<or> length (elems (points s)) = 1" by arith
  then show ?thesis
    by (auto simp: hitTest_def Let_def)
qed

theorem hitTest_short_witness:
  "length (elems (points dotShape)) < 2 \<and>
   hitTest sample_helpers dotShape (Vec2 3 4) = False"
proof -
  have h: "length (elems (points dotShape)) < 2"
    by (simp add: dotShape_def mkShape_def)
  show ?thesis using h hitTest_short [OF h, of sample_helpers "Vec2 3 4"] by simp
qed

text \<open>
  Claim C10 (\<^verbatim>\<open>transform\<close> discards the pressure). For every input, \<^verbatim>\<open>transform\<close> either
  returns, and then the resulting sequence has as many points as the initial one, each
  with exactly two components, so that the third coordinate of the initial points, the
  0.5 sentinel included, is gone; or it throws, which it does only when there is a point
  to map and no cache entry for the initial shape.
\<close>

theorem transform_drops_pressure:
  "(case transform E w s bounds s0 sx sy of
      Inr (s', w') \<Rightarrow>
        length (elems (points s')) = length (elems (points s0)) \<and>
        (\<forall>p \<in> set (elems (points s')). components p = 2 \<and> third p = None)
    | Inl e \<Rightarrow> boundsCache w (oid s0) = None \<and> elems (points s0) \<noteq> [])"
proof (cases "boundsCache w (oid s0)")
  case (Some ib)
  then show ?thesis
    by (auto simp: transform_ok Let_def remapped_def)
next
  case None
  show ?thesis
  proof (cases "elems (points s0)")
    case Nil
    then show ?thesis by (simp add: transform_def Let_def)
  next
    case (Cons p ps)
    with None have "transform E w s bounds s0 sx sy = Inl TypeError"
      by (simp add: transform_no_cache)
    with None Cons show ?thesis by simp
  qed
qed

text \<open>
  A pen stroke with real pressure values, and the horizontal stroke whose cached box has
  height zero: both come back with two-entry points.
\<close>

theorem transform_drops_pressure_witness:
  "transform sample_helpers cachedWorld liveShape box10 penSnapshot (- 1) 1 =
     Inr (mirroredShape, resizedWorld) \<and>
   elems (points penSnapshot) = [Vec3 0 0 (1 / 5), Vec3 5 5 (9 / 10)] \<and>
   elems (points mirroredShape) = [Vec2 10 0, Vec2 0 10] \<and>
   components (Vec2 10 0 :: number vec) = 2 \<and> third (Vec2 10 0 :: number vec) = None \<and>
   components (Vec2 0 10 :: number vec) = 2 \<and> third (Vec2 0 10 :: number vec) = None \<and>
   boundsCache farWorld (oid farShape) = Some \<lparr>minX = 0, minY = 0, width = 10, height = 0\<rparr> \<and>
   transform sample_helpers farWorld farShape wideBox farShape (- 1) 1 =
     Inr (farMirrored, farWorld\<lparr>nextIdent := 101\<rparr>) \<and>
   elems (points farMirrored) = [Vec2 20 NaN, Vec2 0 NaN] \<and>
   components (Vec2 20 NaN :: number vec) = 2 \<and> third (Vec2 20 NaN :: number vec) = None \<and>
   components (Vec2 0 NaN :: number vec) = 2 \<and> third (Vec2 0 NaN :: number vec) = None"
proof -
  have c: "boundsCache farWorld (oid farShape) =
             Some \<lparr>minX = 0, minY = 0, width = 10, height = 0\<rparr>"
    by (simp add: farWorld_eq emptyWorld_def farShape_def mkShape_def)
  show ?thesis
    using c pen_transform far_transform
      transform_drops_pressure
        [where E = sample_helpers and w = cachedWorld and s = liveShape and bounds = box10
           and ?s0.0 = penSnapshot and sx = "- 1" and sy = 1]
      transform_drops_pressure
        [where E = sample_helpers and w = farWorld and s = farShape and bounds = wideBox
           and ?s0.0 = farShape and sx = "- 1" and sy = 1]
    by (simp add: mirroredShape_def penSnapshot_def farMirrored_def)
qed

end
